theory Spec2Isabelle
  imports Complex_Main
begin

section \<open>Documents and collections\<close>

text \<open>
  A MongoDB collection is kept as the list of its documents in insertion order, each paired
  with its \<open>_id\<close>. \<open>findById\<close> looks an id up, \<open>findOne\<close> returns the first document
  (in insertion order) that satisfies the filter, \<open>find_docs\<close> all of them, and \<open>save_doc\<close>
  replaces the document stored under an id or appends a new one. ObjectIds and timestamps
  are natural numbers.

  A JavaScript Number (prices, quantities, totals) is a value of a type \<open>'n\<close> of which
  nothing is assumed but that it has \<open>0\<close>, \<open>1\<close>, \<open>+\<close> and \<open>*\<close>: no law of arithmetic is
  available, so what is proved of the amounts holds of IEEE doubles as of any other numbers.
  The literal \<open>2.0\<close> is \<open>1 + 1\<close>, a sum that doubles compute exactly.
\<close>

type_synonym oid = nat
type_synonym time = nat
type_synonym 'a collection = "(oid \<times> 'a) list"

definition lit_2_0 :: "'n::{one,plus}" where
  "lit_2_0 = 1 + 1"

definition findById :: "'a collection \<Rightarrow> oid \<Rightarrow> 'a option" where
  "findById c i = map_of c i"

definition findOne :: "('a \<Rightarrow> bool) \<Rightarrow> 'a collection \<Rightarrow> (oid \<times> 'a) option" where
  "findOne P c = find (\<lambda>(i, d). P d) c"

definition find_docs :: "(oid \<Rightarrow> 'a \<Rightarrow> bool) \<Rightarrow> 'a collection \<Rightarrow> 'a collection" where
  "find_docs P c = filter (\<lambda>(i, d). P i d) c"

definition countDocuments :: "(oid \<Rightarrow> 'a \<Rightarrow> bool) \<Rightarrow> 'a collection \<Rightarrow> nat" where
  "countDocuments P c = length (find_docs P c)"

fun save_doc :: "oid \<Rightarrow> 'a \<Rightarrow> 'a collection \<Rightarrow> 'a collection" where
  "save_doc i d [] = [(i, d)]"
| "save_doc i d ((j, e) # c) = (if j = i then (i, d) # c else (j, e) # save_doc i d c)"

subsection \<open>The models\<close>

text \<open>
  Modelled from the spec: the Table schema (models/table.model.js) is not among the sources.
  Section 3 of the specification gives \<open>status \<in> {available, occupied, cleaning}\<close>, and the
  handlers read and write \<open>tableId\<close>, \<open>isActive\<close>, \<open>status\<close> and \<open>currentSession\<close>.
\<close>

datatype table_status = Available | Occupied | Cleaning

record table =
  tableId :: string
  isActive :: bool
  table_status :: table_status
  currentSession :: "oid option"

text \<open>
  Modelled from the spec: the TableSession schema (models/table-session.model.js) is not
  among the sources. The handlers use the statuses \<open>active\<close>, \<open>payment_pending\<close>,
  \<open>closed\<close> and \<open>completed\<close>; a new session starts as \<open>active\<close> (section 4.1). The
  handlers name two paths for the reference to the table, and each is kept as the source
  has it: \<open>table\<close>, written by \<open>startTableSession\<close> and read by \<open>endTableSession\<close> in
  table.controller.js, and \<open>tableId\<close>, written by the socket events and read by the
  order, bill and socket handlers. A path that a handler does not write is absent.
\<close>

datatype session_status = Active | PaymentPending | Closed | Completed

record table_session =
  session_table :: "oid option"
  session_tableId :: "oid option"
  clientId :: "oid option"
  session_status :: session_status
  startTime :: time
  endTime :: "time option"
  session_orders :: "oid list"

text \<open>The order schema of models/order.model.js; statuses are the strings of the source.\<close>

record 'n order_item =
  menuItem :: oid
  name :: string
  price :: 'n
  quantity :: 'n
  item_total :: 'n
  specialInstructions :: string

record 'n order =
  user :: "oid option"
  items :: "'n order_item list"
  TableId :: "oid option"
  subtotal :: 'n
  deliveryFee :: 'n
  order_total :: 'n
  orderType :: string
  status :: string
  paymentStatus :: string
  paymentMethod :: string
  paymentId :: "string option"
  updatedAt :: time

definition orderType_enum :: "string list" where
  "orderType_enum = [''Take Away'', ''Delivery'', ''Dine In'']"

definition status_enum :: "string list" where
  "status_enum = [''pending'', ''confirmed'', ''preparing'', ''cancelled'', ''ready_for_pickup'']"

definition paymentStatus_enum :: "string list" where
  "paymentStatus_enum = [''pending'', ''paid'', ''failed'']"

definition paymentMethod_enum :: "string list" where
  "paymentMethod_enum = [''card'', ''cash'', ''wallet'']"

text \<open>
  \<open>order.save()\<close> validates the document against the schema first and rejects with a
  ValidationError when an enumerated path holds a value outside its \<open>enum\<close>.
\<close>

definition order_valid :: "'n order \<Rightarrow> bool" where
  "order_valid od \<longleftrightarrow>
     orderType od \<in> set orderType_enum \<and> status od \<in> set status_enum \<and>
     paymentStatus od \<in> set paymentStatus_enum \<and> paymentMethod od \<in> set paymentMethod_enum"

text \<open>
  Modelled from the spec: the Bill and MenuItem schemas (models/bill.model.js,
  models/menuItem.model.js) are not among the sources; the fields are those the handlers
  read and write.
\<close>

record 'n bill =
  tableSessionId :: oid
  bill_total :: 'n
  bill_paymentStatus :: string
  bill_paymentMethod :: "string option"
  processedBy :: "oid option"

record 'n menu_item =
  item_name :: string
  item_price :: 'n
  isAvailable :: bool

subsection \<open>Effects, responses and the state\<close>

datatype cache_key =
  KITCHEN_ORDERS_CACHE
| COMPLETED_ORDERS_CACHE
| ORDER_DETAILS_CACHE oid
| USER_ORDERS_CACHE oid
| SESSION_ORDERS_CACHE oid

datatype model = TableModel | TableSessionModel | OrderModel | BillModel

datatype target = Caller | Room string | Socket string

text \<open>
  What a handler does besides answering, in program order: a document written to the store,
  an event emitted on the real-time transport (with the ids it carries), a cache key dropped.
\<close>

datatype effect =
  Saved model oid
| Emit target string "oid list"
| EmitError string "oid option" "oid option"
| DeleteCache cache_key

datatype error = ValidationError

datatype 'n body =
  Message string
| MenuItemNotFound oid
| MenuItemNotAvailable string
| BillExists string oid
| BillBody string oid 'n string
| OrderBody string oid "'n order"
| PaymentBody string oid string "string option" bool
| TableBody string oid table_status
| SessionStarted string oid oid time session_status
| SessionEnded string oid "oid option" "time option" session_status

datatype 'n response = Json nat "'n body" | Next error

record 'n state =
  Tables :: "table collection"
  TableSessions :: "table_session collection"
  Orders :: "'n order collection"
  Bills :: "'n bill collection"
  MenuItems :: "'n menu_item collection"
  Users :: "oid list"
  nextId :: oid
  effects :: "effect list"

text \<open>
  What a request finds around it: whether the transport handle \<open>req.io\<close> is present,
  whether the cache is connected, the socket id registered under \<open>kitchen:socket_id\<close>,
  and the clock.
\<close>

record env =
  io :: bool
  redisConnected :: bool
  kitchenSocketId :: "string option"
  now :: time

definition save_Table :: "oid \<Rightarrow> table \<Rightarrow> 'n state \<Rightarrow> 'n state" where
  "save_Table i t st = st\<lparr>Tables := save_doc i t (Tables st), effects := effects st @ [Saved TableModel i]\<rparr>"

definition save_TableSession :: "oid \<Rightarrow> table_session \<Rightarrow> 'n state \<Rightarrow> 'n state" where
  "save_TableSession i s st =
     st\<lparr>TableSessions := save_doc i s (TableSessions st), effects := effects st @ [Saved TableSessionModel i]\<rparr>"

definition save_Order :: "oid \<Rightarrow> 'n order \<Rightarrow> 'n state \<Rightarrow> 'n state" where
  "save_Order i od st = st\<lparr>Orders := save_doc i od (Orders st), effects := effects st @ [Saved OrderModel i]\<rparr>"

definition save_Bill :: "oid \<Rightarrow> 'n bill \<Rightarrow> 'n state \<Rightarrow> 'n state" where
  "save_Bill i b st = st\<lparr>Bills := save_doc i b (Bills st), effects := effects st @ [Saved BillModel i]\<rparr>"

definition new_id :: "'n state \<Rightarrow> oid \<times> 'n state" where
  "new_id st = (nextId st, st\<lparr>nextId := Suc (nextId st)\<rparr>)"

definition emit :: "target \<Rightarrow> string \<Rightarrow> oid list \<Rightarrow> 'n state \<Rightarrow> 'n state" where
  "emit t ev ids st = st\<lparr>effects := effects st @ [Emit t ev ids]\<rparr>"

definition emit_error :: "string \<Rightarrow> oid option \<Rightarrow> oid option \<Rightarrow> 'n state \<Rightarrow> 'n state" where
  "emit_error msg sid tid st = st\<lparr>effects := effects st @ [EmitError msg sid tid]\<rparr>"

definition deleteCache :: "cache_key \<Rightarrow> 'n state \<Rightarrow> 'n state" where
  "deleteCache k st = st\<lparr>effects := effects st @ [DeleteCache k]\<rparr>"

text \<open>
  \<open>Table.findById(ref)\<close> followed by \<open>if (table)\<close>: the table that the reference names is
  set to cleaning and detached, when there is a reference and the table is found. The
  order, bill, table and socket handlers each carry this block; \<open>endTableSession\<close> passes
  \<open>session.table\<close>, the others \<open>session.tableId\<close>.
\<close>

definition release_table :: "oid option \<Rightarrow> 'n state \<Rightarrow> 'n state" where
  "release_table ref st =
     (case ref of
        None \<Rightarrow> st
      | Some tid \<Rightarrow>
          (case findById (Tables st) tid of
             None \<Rightarrow> st
           | Some t \<Rightarrow> save_Table tid (t\<lparr>table_status := Cleaning, currentSession := None\<rparr>) st))"

section \<open>socket.js: the kitchen notifier\<close>

text \<open>
  \<open>notifyKitchenAboutNewOrder\<close> and \<open>notifyKitchenAboutOrderUpdate\<close>: without a registered
  kitchen socket they return false; otherwise they emit to that socket and then drop the
  active kitchen aggregate.
\<close>

definition notifyKitchenAboutNewOrder :: "env \<Rightarrow> oid \<Rightarrow> 'n order \<Rightarrow> 'n state \<Rightarrow> bool \<times> 'n state" where
  "notifyKitchenAboutNewOrder e i od st =
     (case kitchenSocketId e of
        None \<Rightarrow> (False, st)
      | Some k \<Rightarrow>
          (True, deleteCache KITCHEN_ORDERS_CACHE (emit (Socket k) ''new_kitchen_order'' [i] st)))"

definition notifyKitchenAboutOrderUpdate :: "env \<Rightarrow> oid \<Rightarrow> 'n order \<Rightarrow> string \<Rightarrow> 'n state \<Rightarrow> bool \<times> 'n state" where
  "notifyKitchenAboutOrderUpdate e i od previousStatus st =
     (case kitchenSocketId e of
        None \<Rightarrow> (False, st)
      | Some k \<Rightarrow>
          (True, deleteCache KITCHEN_ORDERS_CACHE (emit (Socket k) ''order_status_updated'' [i] st)))"

section \<open>order.controller.js\<close>

subsection \<open>createOrder\<close>

text \<open>
  The request body. An absent or empty string is the empty string, an absent id is \<open>None\<close>,
  an absent or zero quantity is \<open>0\<close>: each is falsy in the handler's checks. The two
  messages of the loop that interpolate the id and the name of the menu item are answers of
  their own, \<open>MenuItemNotFound\<close> and \<open>MenuItemNotAvailable\<close>.
  \<open>deliveryAddress\<close> and \<open>deliveryInstructions\<close> are stored as they come and are left out,
  as is \<open>deviceId\<close>, which is not a path of the order schema.
\<close>

record 'n item_request =
  req_menuItemId :: "oid option"
  req_quantity :: 'n
  req_specialInstructions :: string

record 'n order_request =
  req_userId :: "oid option"
  req_items :: "'n item_request list"
  req_paymentMethod :: string
  req_sessionId :: "oid option"
  req_tableId :: string
  req_orderType :: string
  req_deviceId :: string

text \<open>The loop over the requested items, with its running \<open>subtotal\<close> and \<open>orderItems\<close>.\<close>

fun order_lines ::
  "('n::{zero,plus,times}) menu_item collection \<Rightarrow> 'n item_request list \<Rightarrow> 'n \<Rightarrow>
   'n order_item list \<Rightarrow> 'n response + ('n \<times> 'n order_item list)" where
  "order_lines menu [] sub acc = Inr (sub, acc)"
| "order_lines menu (it # its) sub acc =
     (case req_menuItemId it of
        None \<Rightarrow> Inl (Json 400 (Message ''Menu item ID and quantity are required for each item''))
      | Some mid \<Rightarrow>
          if req_quantity it = 0
          then Inl (Json 400 (Message ''Menu item ID and quantity are required for each item''))
          else
            (case findById menu mid of
               None \<Rightarrow> Inl (Json 404 (MenuItemNotFound mid))
             | Some m \<Rightarrow>
                 if \<not> isAvailable m then Inl (Json 400 (MenuItemNotAvailable (item_name m)))
                 else
                   let itemPrice = item_price m;
                       total = itemPrice * req_quantity it
                   in order_lines menu its (sub + total)
                        (acc @ [\<lparr>menuItem = mid, name = item_name m, price = itemPrice,
                                 quantity = req_quantity it, item_total = total,
                                 specialInstructions = req_specialInstructions it\<rparr>])))"

text \<open>\<open>session.orders.push(order._id)\<close>: the id goes to the end of the session's list.\<close>

definition orders_push :: "oid \<Rightarrow> table_session \<Rightarrow> table_session" where
  "orders_push i s = s\<lparr>session_orders := session_orders s @ [i]\<rparr>"

definition activeStatuses :: "string list" where
  "activeStatuses = [''pending'', ''confirmed'', ''preparing'']"

definition completedStatuses :: "string list" where
  "completedStatuses = [''ready_for_pickup'', ''completed'', ''cancelled'']"

definition kitchenRelevantStatuses :: "string list" where
  "kitchenRelevantStatuses =
     [''pending'', ''confirmed'', ''preparing'', ''ready_for_pickup'', ''completed'', ''cancelled'']"

text \<open>Everything up to the construction of the order document (lines 33 to 118).\<close>

definition new_order ::
  "env \<Rightarrow> ('n::{zero,one,plus,times}) state \<Rightarrow> 'n order_request \<Rightarrow> 'n response + 'n order" where
  "new_order e st rq =
     (if req_items rq = [] \<or> req_orderType rq = []
      then Inl (Json 400 (Message ''Items and order type are required''))
      else if req_orderType rq = ''Dine In'' \<and> req_tableId rq = [] \<and> req_deviceId rq = []
      then Inl (Json 400 (Message ''Table ID or Device ID is required for Dine In orders''))
      else if (case req_userId rq of None \<Rightarrow> False | Some u \<Rightarrow> u \<notin> set (Users st))
      then Inl (Json 404 (Message ''User not found''))
      else
        (case order_lines (MenuItems st) (req_items rq) 0 [] of
           Inl r \<Rightarrow> Inl r
         | Inr (sub, orderItems) \<Rightarrow>
             let fee = (if req_orderType rq = ''Delivery'' then lit_2_0 else 0);
                 total = sub + fee;
                 tableDbId =
                   (if req_tableId rq \<noteq> []
                    then map_option fst (findOne (\<lambda>t. tableId t = req_tableId rq) (Tables st))
                    else None)
             in Inr \<lparr>user = req_userId rq, items = orderItems, TableId = tableDbId,
                      subtotal = sub, deliveryFee = fee, order_total = total,
                      orderType = req_orderType rq, status = ''pending'',
                      paymentStatus = ''pending'',
                      paymentMethod =
                        (if req_paymentMethod rq = [] then ''cash'' else req_paymentMethod rq),
                      paymentId = None, updatedAt = now e\<rparr>))"

text \<open>The kitchen notification that closes the handler (lines 151 to 167).\<close>

definition created :: "env \<Rightarrow> oid \<Rightarrow> 'n order \<Rightarrow> 'n state \<Rightarrow> 'n response \<times> 'n state" where
  "created e i od st =
     (Json 201 (OrderBody ''Order created successfully'' i od),
      if io e \<and> status od \<in> set activeStatuses
      then snd (notifyKitchenAboutNewOrder e i od st) else st)"

definition createOrder ::
  "env \<Rightarrow> ('n::{zero,one,plus,times}) state \<Rightarrow> 'n order_request \<Rightarrow> 'n response \<times> 'n state" where
  "createOrder e st rq =
     (case new_order e st rq of
        Inl r \<Rightarrow> (r, st)
      | Inr od \<Rightarrow>
          if \<not> order_valid od then (Json 400 (Message ''Validation Error''), st)
          else
            let (i, st0) = new_id st;
                st1 = save_Order i od st0
            in
              (case req_sessionId rq of
                 None \<Rightarrow> created e i od st1
               | Some sid \<Rightarrow>
                   (case findById (TableSessions st1) sid of
                      None \<Rightarrow> (Json 404 (Message ''Session not found''), st1)
                    | Some s \<Rightarrow>
                        let st2 = save_TableSession sid (orders_push i s) st1;
                            st3 = (if io e \<and> req_tableId rq \<noteq> []
                                   then emit (Room (''table_'' @ req_tableId rq)) ''new_order'' [sid, i] st2
                                   else st2)
                        in created e i od st3)))"

subsection \<open>updateOrderStatus\<close>

text \<open>The cache invalidation of lines 264 to 308, run when the cache is connected.\<close>

definition status_invalidation :: "oid \<Rightarrow> 'n order \<Rightarrow> string \<Rightarrow> string \<Rightarrow> 'n state \<Rightarrow> 'n state" where
  "status_invalidation i od previousStatus new_status st =
     (let st1 = deleteCache (ORDER_DETAILS_CACHE i) st;
          st2 = (case user od of None \<Rightarrow> st1 | Some u \<Rightarrow> deleteCache (USER_ORDERS_CACHE u) st1);
          st3 = (case findOne (\<lambda>s. i \<in> set (session_orders s)) (TableSessions st2) of
                   None \<Rightarrow> st2
                 | Some (sid, s) \<Rightarrow> deleteCache (SESSION_ORDERS_CACHE sid) st2)
      in
        if (previousStatus \<in> set activeStatuses \<and> new_status \<in> set completedStatuses) \<or>
           (previousStatus \<in> set completedStatuses \<and> new_status \<in> set activeStatuses)
        then deleteCache COMPLETED_ORDERS_CACHE (deleteCache KITCHEN_ORDERS_CACHE st3)
        else if previousStatus \<in> set activeStatuses \<and> new_status \<in> set activeStatuses
        then deleteCache KITCHEN_ORDERS_CACHE st3
        else if previousStatus \<in> set completedStatuses \<and> new_status \<in> set completedStatuses
        then deleteCache COMPLETED_ORDERS_CACHE st3
        else st3)"

definition updateOrderStatus :: "env \<Rightarrow> 'n state \<Rightarrow> oid \<Rightarrow> string \<Rightarrow> 'n response \<times> 'n state" where
  "updateOrderStatus e st orderId new_status =
     (if new_status = [] then (Json 400 (Message ''New status is required''), st)
      else
        (case findById (Orders st) orderId of
           None \<Rightarrow> (Json 404 (Message ''Order not found''), st)
         | Some od \<Rightarrow>
             let previousStatus = status od in
               if previousStatus = new_status
               then (Json 200 (OrderBody (''Order status is already '' @ new_status) orderId od), st)
               else
                 let od' = od\<lparr>status := new_status, updatedAt := now e\<rparr> in
                   if \<not> order_valid od' then (Next ValidationError, st)
                   else
                     let st1 = save_Order orderId od' st;
                         st2 = (if io e \<and>
                                   (previousStatus \<in> set kitchenRelevantStatuses \<or>
                                    new_status \<in> set kitchenRelevantStatuses)
                                then snd (notifyKitchenAboutOrderUpdate e orderId od' previousStatus st1)
                                else st1);
                         st3 = (if redisConnected e
                                then status_invalidation orderId od' previousStatus new_status st2
                                else st2)
                     in (Json 200 (OrderBody ''Order status updated successfully'' orderId od'), st3)))"

subsection \<open>updatePaymentStatus\<close>

text \<open>
  The cascade of lines 564 to 584 on the session that lists the order: when it is
  \<open>payment_pending\<close> and none of its orders is left unpaid, the session is closed and its
  table, if found, goes to cleaning without a current session.
\<close>

definition payment_cascade ::
  "env \<Rightarrow> (oid \<times> table_session) option \<Rightarrow> 'n state \<Rightarrow> bool \<times> 'n state" where
  "payment_cascade e session st =
     (case session of
        None \<Rightarrow> (False, st)
      | Some (sid, s) \<Rightarrow>
          if session_status s = PaymentPending
          then
            let unpaidOrders =
                  countDocuments (\<lambda>i od. i \<in> set (session_orders s) \<and> paymentStatus od \<noteq> ''paid'')
                    (Orders st)
            in
              if unpaidOrders = 0
              then
                let st1 = save_TableSession sid (s\<lparr>session_status := Closed, endTime := Some (now e)\<rparr>) st
                in (True, release_table (session_tableId s) st1)
              else (False, st)
          else (False, st))"

definition payment_invalidation ::
  "oid \<Rightarrow> 'n order \<Rightarrow> (oid \<times> table_session) option \<Rightarrow> 'n state \<Rightarrow> 'n state" where
  "payment_invalidation i od session st =
     (let st1 = deleteCache (ORDER_DETAILS_CACHE i) st;
          st2 = (case user od of None \<Rightarrow> st1 | Some u \<Rightarrow> deleteCache (USER_ORDERS_CACHE u) st1)
      in
        (case session of
           None \<Rightarrow> st2
         | Some (sid, s) \<Rightarrow> deleteCache (SESSION_ORDERS_CACHE sid) st2))"

definition updatePaymentStatus ::
  "env \<Rightarrow> 'n state \<Rightarrow> oid \<Rightarrow> string \<Rightarrow> string \<Rightarrow> 'n response \<times> 'n state" where
  "updatePaymentStatus e st orderId new_paymentStatus new_paymentId =
     (if new_paymentStatus = [] then (Json 400 (Message ''Payment status is required''), st)
      else
        (case findById (Orders st) orderId of
           None \<Rightarrow> (Json 404 (Message ''Order not found''), st)
         | Some od \<Rightarrow>
             let od' = od\<lparr>paymentStatus := new_paymentStatus,
                           paymentId := (if new_paymentId \<noteq> [] then Some new_paymentId else paymentId od),
                           updatedAt := now e\<rparr>
             in
               if \<not> order_valid od' then (Next ValidationError, st)
               else
                 let st1 = save_Order orderId od' st;
                     session = findOne (\<lambda>s. orderId \<in> set (session_orders s)) (TableSessions st1);
                     (sessionUpdated, st2) = payment_cascade e session st1;
                     st3 = (if redisConnected e then payment_invalidation orderId od' session st2 else st2)
                 in (Json 200 (PaymentBody ''Payment status updated successfully'' orderId
                                 (paymentStatus od') (paymentId od') sessionUpdated), st3)))"

section \<open>table.controller.js\<close>



definition startTableSession :: "env \<Rightarrow> 'n state \<Rightarrow> oid \<Rightarrow> 'n response \<times> 'n state" where
  "startTableSession e st tid =
     (case findById (Tables st) tid of
        None \<Rightarrow> (Json 404 (Message ''Table not found''), st)
      | Some t \<Rightarrow>
          if \<not> isActive t then (Json 400 (Message ''Table is not active''), st)
          else if table_status t \<noteq> Available then (Json 400 (Message ''Table is not available''), st)
          else
            let (sid, st0) = new_id st;
                s = \<lparr>session_table = Some tid, session_tableId = None, clientId = None,
                     session_status = Active, startTime = now e, endTime = None,
                     session_orders = []\<rparr>;
                st1 = save_TableSession sid s st0;
                st2 = save_Table tid (t\<lparr>table_status := Occupied, currentSession := Some sid\<rparr>) st1
            in (Json 201 (SessionStarted ''Table session started successfully'' sid tid
                            (startTime s) (session_status s)), st2))"


section \<open>bill.controller.js\<close>

text \<open>
  \<open>Order.find({_id: {$in: session.orders}})\<close> and the \<open>reduce\<close> that adds the orders' totals
  up from 0.
\<close>

definition session_total :: "('n::{zero,plus}) state \<Rightarrow> table_session \<Rightarrow> 'n" where
  "session_total st s =
     foldl (\<lambda>sum (i, od). sum + order_total od) 0
       (find_docs (\<lambda>i od. i \<in> set (session_orders s)) (Orders st))"

definition create_bill ::
  "oid \<Rightarrow> table_session \<Rightarrow> ('n::{zero,plus}) state \<Rightarrow> oid \<times> 'n bill \<times> 'n state" where
  "create_bill sid s st =
     (let total = session_total st s;
          b = \<lparr>tableSessionId = sid, bill_total = total, bill_paymentStatus = ''pending'',
               bill_paymentMethod = None, processedBy = None\<rparr>;
          (bid, st0) = new_id st
      in (bid, b, save_Bill bid b st0))"

definition generateBillForSession ::
  "env \<Rightarrow> ('n::{zero,plus}) state \<Rightarrow> oid \<Rightarrow> 'n response \<times> 'n state" where
  "generateBillForSession e st sid =
     (case findOne (\<lambda>b. tableSessionId b = sid) (Bills st) of
        Some (bid, existingBill) \<Rightarrow> (Json 400 (BillExists ''Bill already exists for this session'' bid), st)
      | None \<Rightarrow>
          (case findById (TableSessions st) sid of
             None \<Rightarrow> (Json 404 (Message ''Session not found''), st)
           | Some s \<Rightarrow>
               let (bid, b, st1) = create_bill sid s st;
                   st2 = save_TableSession sid (s\<lparr>session_status := PaymentPending\<rparr>) st1
               in (Json 201 (BillBody ''Bill generated successfully'' bid (bill_total b)
                               (bill_paymentStatus b)), st2)))"

definition endSessionAndGenerateBill ::
  "env \<Rightarrow> ('n::{zero,plus}) state \<Rightarrow> oid \<Rightarrow> 'n response \<times> 'n state" where
  "endSessionAndGenerateBill e st sid =
     (case findById (TableSessions st) sid of
        None \<Rightarrow> (Json 404 (Message ''Session not found''), st)
      | Some s \<Rightarrow>
          if session_status s = Closed then (Json 400 (Message ''Session is already closed''), st)
          else
            let (bid, b, st1) =
                  (case findOne (\<lambda>b. tableSessionId b = sid) (Bills st) of
                     Some (bid, b) \<Rightarrow> (bid, b, st)
                   | None \<Rightarrow> create_bill sid s st);
                st2 = save_TableSession sid (s\<lparr>session_status := PaymentPending\<rparr>) st1
            in (Json 200 (BillBody ''Session ended and bill generated successfully'' bid
                            (bill_total b) (bill_paymentStatus b)), st2))"



section \<open>socket.js: the session events\<close>

text \<open>
  \<open>initiate_session\<close> and \<open>scan_qr_code\<close> take the table's external code and the user's
  id; a failed check emits an \<open>error\<close> event to the caller and returns.
\<close>

definition initiate_session :: "env \<Rightarrow> 'n state \<Rightarrow> string \<Rightarrow> oid option \<Rightarrow> 'n state" where
  "initiate_session e st code userId =
     (case userId of
        None \<Rightarrow> emit_error ''Table ID and User ID are required'' None None st
      | Some uid \<Rightarrow>
          if code = [] then emit_error ''Table ID and User ID are required'' None None st
          else
            (case findOne (\<lambda>t. tableId t = code) (Tables st) of
               None \<Rightarrow> emit_error ''Table not found'' None None st
             | Some (tid, t) \<Rightarrow>
                 if \<not> isActive t then emit_error ''Table is not active'' None None st
                 else if table_status t \<noteq> Available
                 then emit_error ''Table is not available'' None None st
                 else if uid \<notin> set (Users st) then emit_error ''User not found'' None None st
                 else
                   (case findOne (\<lambda>s. clientId s = Some uid \<and> session_status s = Active)
                           (TableSessions st) of
                      Some (xid, existingUserSession) \<Rightarrow>
                        emit_error ''You already have an active session at another table''
                          (Some xid) (session_tableId existingUserSession) st
                    | None \<Rightarrow>
                        let (sid, st0) = new_id st;
                            s = \<lparr>session_table = None, session_tableId = Some tid,
                                 clientId = Some uid, session_status = Active,
                                 startTime = now e, endTime = None, session_orders = []\<rparr>;
                            st1 = save_TableSession sid s st0;
                            st2 = save_Table tid
                                    (t\<lparr>table_status := Occupied, currentSession := Some sid\<rparr>) st1;
                            st3 = emit (Room (''table_'' @ code)) ''session_started'' [sid] st2
                        in emit Caller ''session_created'' [sid] st3)))"



section \<open>Reading the effects of a call\<close>

text \<open>
  \<open>new_effects st st'\<close> is what a call that took the state from \<open>st\<close> to \<open>st'\<close> added to
  the effects. \<open>precedes P Q tr\<close> says that in \<open>tr\<close> every effect satisfying \<open>P\<close> comes
  before every effect satisfying \<open>Q\<close>: once a \<open>Q\<close> has happened, no \<open>P\<close> follows.
\<close>

definition new_effects :: "'n state \<Rightarrow> 'n state \<Rightarrow> effect list" where
  "new_effects st st' = drop (length (effects st)) (effects st')"

fun is_saved :: "effect \<Rightarrow> bool" where
  "is_saved (Saved m i) = True"
| "is_saved _ = False"

fun is_emit :: "effect \<Rightarrow> bool" where
  "is_emit (Emit t ev ids) = True"
| "is_emit (EmitError msg a b) = True"
| "is_emit _ = False"

fun is_delete :: "effect \<Rightarrow> bool" where
  "is_delete (DeleteCache k) = True"
| "is_delete _ = False"

fun precedes :: "('a \<Rightarrow> bool) \<Rightarrow> ('a \<Rightarrow> bool) \<Rightarrow> 'a list \<Rightarrow> bool" where
  "precedes P Q [] = True"
| "precedes P Q (x # xs) = ((if Q x then \<not> list_ex P xs else True) \<and> precedes P Q xs)"

text \<open>
  The keys that \<open>status_invalidation\<close> drops, in its order: the entity keys of the order,
  then the kitchen aggregates chosen by the two statuses; and what the update notifier adds
  to the effects.
\<close>

definition kitchen_keys :: "string \<Rightarrow> string \<Rightarrow> cache_key list" where
  "kitchen_keys previousStatus new_status =
     (if (previousStatus \<in> set activeStatuses \<and> new_status \<in> set completedStatuses) \<or>
         (previousStatus \<in> set completedStatuses \<and> new_status \<in> set activeStatuses)
      then [KITCHEN_ORDERS_CACHE, COMPLETED_ORDERS_CACHE]
      else if previousStatus \<in> set activeStatuses \<and> new_status \<in> set activeStatuses
      then [KITCHEN_ORDERS_CACHE]
      else if previousStatus \<in> set completedStatuses \<and> new_status \<in> set completedStatuses
      then [COMPLETED_ORDERS_CACHE]
      else [])"

definition entity_keys :: "oid \<Rightarrow> 'n order \<Rightarrow> (oid \<times> table_session) option \<Rightarrow> cache_key list" where
  "entity_keys i od session =
     ORDER_DETAILS_CACHE i #
     (case user od of None \<Rightarrow> [] | Some u \<Rightarrow> [USER_ORDERS_CACHE u]) @
     (case session of None \<Rightarrow> [] | Some (sid, s) \<Rightarrow> [SESSION_ORDERS_CACHE sid])"

definition update_notification :: "env \<Rightarrow> oid \<Rightarrow> effect list" where
  "update_notification e i =
     (case kitchenSocketId e of
        None \<Rightarrow> []
      | Some k \<Rightarrow> [Emit (Socket k) ''order_status_updated'' [i], DeleteCache KITCHEN_ORDERS_CACHE])"

definition new_order_notification :: "env \<Rightarrow> oid \<Rightarrow> effect list" where
  "new_order_notification e i =
     (if io e then
       (case kitchenSocketId e of
          None \<Rightarrow> []
        | Some k \<Rightarrow> [Emit (Socket k) ''new_kitchen_order'' [i], DeleteCache KITCHEN_ORDERS_CACHE])
      else [])"

section \<open>Properties of documents\<close>

text \<open>
  A line of an order snapshots the menu: it names the requested menu item, carries the
  unit price that the menu has for it, the requested quantity, and their product as total.
\<close>

definition line_snapshot :: "('n::times) menu_item collection \<Rightarrow> 'n item_request \<Rightarrow> 'n order_item \<Rightarrow> bool" where
  "line_snapshot menu it l \<longleftrightarrow>
     req_menuItemId it = Some (menuItem l) \<and>
     map_option item_price (findById menu (menuItem l)) = Some (price l) \<and>
     quantity l = req_quantity it \<and>
     item_total l = price l * quantity l"

text \<open>
  The count of line 565 is zero: no stored order that the session lists has a payment
  status other than paid.
\<close>

definition all_paid :: "table_session \<Rightarrow> 'n state \<Rightarrow> bool" where
  "all_paid s st \<longleftrightarrow>
     countDocuments (\<lambda>i od. i \<in> set (session_orders s) \<and> paymentStatus od \<noteq> ''paid'') (Orders st) = 0"



text \<open>The HTTP status code of an answer; an error passed to \<open>next\<close> has none here.\<close>

fun status_code :: "'n response \<Rightarrow> nat option" where
  "status_code (Json c b) = Some c"
| "status_code (Next err) = None"


section \<open>Concrete stores and requests\<close>

text \<open>
  The scenario of section 8 of the specification: table \<open>T1\<close>, a client, a menu with unit
  prices 5.00 and 3.50, and an order of two of the first and one of the second.
\<close>

definition ex_env :: env where
  "ex_env = \<lparr>io = True, redisConnected = True, kitchenSocketId = Some ''k1'', now = 100\<rparr>"

definition ex_menu :: "real menu_item collection" where
  "ex_menu = [(1, \<lparr>item_name = ''Soup'', item_price = 5, isAvailable = True\<rparr>),
              (2, \<lparr>item_name = ''Tea'', item_price = 3.5, isAvailable = True\<rparr>)]"

definition ex_table :: table where
  "ex_table = \<lparr>tableId = ''T1'', isActive = True, table_status = Occupied, currentSession = Some 20\<rparr>"

definition ex_session :: table_session where
  "ex_session = \<lparr>session_table = None, session_tableId = Some 10, clientId = Some 7,
                  session_status = Active, startTime = 50, endTime = None, session_orders = []\<rparr>"

definition ex_state :: "real state" where
  "ex_state = \<lparr>Tables = [(10, ex_table)], TableSessions = [(20, ex_session)], Orders = [],
                Bills = [], MenuItems = ex_menu, Users = [7], nextId = 30, effects = []\<rparr>"

definition ex_request :: "real order_request" where
  "ex_request = \<lparr>req_userId = Some 7,
     req_items = [\<lparr>req_menuItemId = Some 1, req_quantity = 2, req_specialInstructions = []\<rparr>,
                  \<lparr>req_menuItemId = Some 2, req_quantity = 1, req_specialInstructions = []\<rparr>],
     req_paymentMethod = [], req_sessionId = Some 20, req_tableId = ''T1'',
     req_orderType = ''Dine In'', req_deviceId = []\<rparr>"

definition ex_order :: "real order" where
  "ex_order = \<lparr>user = Some 7,
        items =
          [\<lparr>menuItem = 1, name = ''Soup'', price = 5, quantity = 2,
              item_total = 10, specialInstructions = []\<rparr>,
           \<lparr>menuItem = 2, name = ''Tea'', price = 3.5, quantity = 1,
              item_total = 3.5, specialInstructions = []\<rparr>],
        TableId = Some 10, subtotal = 13.5, deliveryFee = 0,
        order_total = 13.5, orderType = ''Dine In'', status = ''pending'',
        paymentStatus = ''pending'', paymentMethod = ''cash'',
        paymentId = None, updatedAt = 100\<rparr>"

text \<open>The same store with the order placed and in the kitchen, and with the order ready.\<close>

definition ex_kitchen_state :: "real state" where
  "ex_kitchen_state = ex_state\<lparr>Orders := [(30, ex_order\<lparr>status := ''preparing''\<rparr>)]\<rparr>"

definition ex_ready_state :: "real state" where
  "ex_ready_state = ex_state\<lparr>Orders := [(30, ex_order\<lparr>status := ''ready_for_pickup''\<rparr>)]\<rparr>"

text \<open>The same order placed for delivery, outside a session.\<close>

definition ex_delivery_request :: "real order_request" where
  "ex_delivery_request =
     ex_request\<lparr>req_sessionId := None, req_tableId := [], req_orderType := ''Delivery''\<rparr>"

definition ex_delivery_order :: "real order" where
  "ex_delivery_order =
     ex_order\<lparr>TableId := None, deliveryFee := 2, order_total := 15.5, orderType := ''Delivery''\<rparr>"

text \<open>The store before the client arrives: the table is available and has no session.\<close>

definition ex_free_state :: "real state" where
  "ex_free_state =
     ex_state\<lparr>Tables := [(10, ex_table\<lparr>table_status := Available, currentSession := None\<rparr>)],
              TableSessions := []\<rparr>"


text \<open>
  The session after its bill was settled and the session was closed; and the session with
  its bill generated and not yet paid.
\<close>

definition ex_bill :: "real bill" where
  "ex_bill = \<lparr>tableSessionId = 20, bill_total = 13.5, bill_paymentStatus = ''paid'',
               bill_paymentMethod = Some ''cash'', processedBy = Some 7\<rparr>"

definition ex_closed_state :: "real state" where
  "ex_closed_state =
     ex_state\<lparr>TableSessions := [(20, ex_session\<lparr>session_status := Closed, endTime := Some 90,
                                                session_orders := [30]\<rparr>)],
              Orders := [(30, ex_order\<lparr>paymentStatus := ''paid''\<rparr>)],
              Bills := [(40, ex_bill)]\<rparr>"

definition ex_billed_state :: "real state" where
  "ex_billed_state =
     ex_state\<lparr>TableSessions := [(20, ex_session\<lparr>session_status := PaymentPending, session_orders := [30]\<rparr>)],
              Orders := [(30, ex_order)],
              Bills := [(40, ex_bill\<lparr>bill_paymentStatus := ''pending''\<rparr>)]\<rparr>"


text \<open>
  The table deactivated; and a second, free table beside the one that the client occupies.
\<close>

definition ex_inactive_state :: "real state" where
  "ex_inactive_state =
     ex_free_state\<lparr>Tables := [(10, \<lparr>tableId = ''T1'', isActive = False, table_status = Available,
                                       currentSession = None\<rparr>)]\<rparr>"

definition ex_second_table :: table where
  "ex_second_table = \<lparr>tableId = ''T2'', isActive = True, table_status = Available, currentSession = None\<rparr>"

definition ex_two_tables_state :: "real state" where
  "ex_two_tables_state = ex_state\<lparr>Tables := [(10, ex_table), (11, ex_second_table)]\<rparr>"


text \<open>
  The life of a session over HTTP, from the free table: the session is started with
  \<open>startTableSession\<close>, the order of the scenario is placed into it, and its bill is
  generated.
\<close>

definition ex_http_session :: table_session where
  "ex_http_session = \<lparr>session_table = Some 10, session_tableId = None, clientId = None,
                       session_status = Active, startTime = 100, endTime = None,
                       session_orders = []\<rparr>"

definition ex_http_started :: "real state" where
  "ex_http_started = snd (startTableSession ex_env ex_free_state 10)"

definition ex_http_ordered :: "real state" where
  "ex_http_ordered = snd (createOrder ex_env ex_http_started (ex_request\<lparr>req_sessionId := Some 30\<rparr>))"

definition ex_http_billed :: "real state" where
  "ex_http_billed = snd (generateBillForSession ex_env ex_http_ordered 30)"

section \<open>Facts about the store\<close>

lemma findById_save_doc: "findById (save_doc i d c) j = (if j = i then Some d else findById c j)"
  by (induction c) (auto simp: findById_def)

lemma ex_new_order:
  "new_order ex_env ex_state (ex_request\<lparr>req_sessionId := x\<rparr>) = Inr ex_order"
  by (simp add: new_order_def ex_env_def ex_state_def ex_request_def ex_order_def ex_menu_def
      findById_def findOne_def ex_table_def Let_def)

lemma ex_order_valid: "order_valid ex_order"
  by (simp add: order_valid_def ex_order_def orderType_enum_def status_enum_def
      paymentStatus_enum_def paymentMethod_enum_def)

section \<open>Facts about traces\<close>

lemma precedes_append:
  "precedes P Q (xs @ ys) \<longleftrightarrow>
     precedes P Q xs \<and> precedes P Q ys \<and> (list_ex Q xs \<longrightarrow> \<not> list_ex P ys)"
  by (induction xs) auto

lemma precedes_none: "\<not> list_ex Q xs \<Longrightarrow> precedes P Q xs"
  by (induction xs) auto

lemma precedes_no_first: "\<not> list_ex P xs \<Longrightarrow> precedes P Q xs"
  by (induction xs) auto

lemma list_ex_map_DeleteCache:
  "list_ex is_saved (map DeleteCache ks) = False"
  "list_ex is_emit (map DeleteCache ks) = False"
  by (induction ks) auto

lemma kitchen_keys_cases:
  "p \<in> set activeStatuses \<Longrightarrow> n \<in> set completedStatuses \<Longrightarrow>
     kitchen_keys p n = [KITCHEN_ORDERS_CACHE, COMPLETED_ORDERS_CACHE]"
  "p \<in> set completedStatuses \<Longrightarrow> n \<in> set activeStatuses \<Longrightarrow>
     kitchen_keys p n = [KITCHEN_ORDERS_CACHE, COMPLETED_ORDERS_CACHE]"
  "p \<in> set activeStatuses \<Longrightarrow> n \<in> set activeStatuses \<Longrightarrow>
     kitchen_keys p n = [KITCHEN_ORDERS_CACHE]"
  "p \<in> set completedStatuses \<Longrightarrow> n \<in> set completedStatuses \<Longrightarrow>
     kitchen_keys p n = [COMPLETED_ORDERS_CACHE]"
  by (auto simp add: kitchen_keys_def activeStatuses_def completedStatuses_def)

lemma entity_keys_not_kitchen:
  "KITCHEN_ORDERS_CACHE \<notin> set (entity_keys i od session)"
  "COMPLETED_ORDERS_CACHE \<notin> set (entity_keys i od session)"
  by (auto simp add: entity_keys_def split: option.splits)

lemma update_notification_keys:
  "DeleteCache COMPLETED_ORDERS_CACHE \<notin> set (update_notification e i)"
  "DeleteCache KITCHEN_ORDERS_CACHE \<in> set (update_notification e i) \<longleftrightarrow> kitchenSocketId e \<noteq> None"
  by (cases "kitchenSocketId e"; simp add: update_notification_def)+

lemma completed_relevant: "n \<in> set completedStatuses \<Longrightarrow> n \<in> set kitchenRelevantStatuses"
  by (auto simp add: completedStatuses_def kitchenRelevantStatuses_def)

section \<open>Facts about updateOrderStatus\<close>

lemma status_invalidation_effects:
  "effects (status_invalidation i od p n st) =
     effects st @
     map DeleteCache
       (entity_keys i od (findOne (\<lambda>s. i \<in> set (session_orders s)) (TableSessions st)) @
        kitchen_keys p n)"
  by (simp add: status_invalidation_def entity_keys_def kitchen_keys_def deleteCache_def Let_def
      split: option.splits)

lemma status_invalidation_store:
  "Orders (status_invalidation i od p n st) = Orders st"
  "Tables (status_invalidation i od p n st) = Tables st"
  "TableSessions (status_invalidation i od p n st) = TableSessions st"
  "Bills (status_invalidation i od p n st) = Bills st"
  by (simp_all add: status_invalidation_def deleteCache_def Let_def split: option.splits)

lemma notifyKitchenAboutOrderUpdate_effects:
  "effects (snd (notifyKitchenAboutOrderUpdate e i od p st)) = effects st @ update_notification e i"
  by (simp add: notifyKitchenAboutOrderUpdate_def update_notification_def emit_def deleteCache_def
      split: option.splits)

lemma notifyKitchenAboutOrderUpdate_store:
  "Orders (snd (notifyKitchenAboutOrderUpdate e i od p st)) = Orders st"
  "Tables (snd (notifyKitchenAboutOrderUpdate e i od p st)) = Tables st"
  "TableSessions (snd (notifyKitchenAboutOrderUpdate e i od p st)) = TableSessions st"
  "Bills (snd (notifyKitchenAboutOrderUpdate e i od p st)) = Bills st"
  by (simp_all add: notifyKitchenAboutOrderUpdate_def emit_def deleteCache_def split: option.splits)

text \<open>A status change that is committed: the answer, the store and the effects it adds.\<close>

lemma updateOrderStatus_committed:
  assumes "findById (Orders st) i = Some od" and "status od \<noteq> ns" and "ns \<noteq> []"
    and "order_valid (od\<lparr>status := ns, updatedAt := now e\<rparr>)"
  shows "fst (updateOrderStatus e st i ns) =
           Json 200 (OrderBody ''Order status updated successfully'' i (od\<lparr>status := ns, updatedAt := now e\<rparr>))"
    and "Orders (snd (updateOrderStatus e st i ns)) =
           save_doc i (od\<lparr>status := ns, updatedAt := now e\<rparr>) (Orders st)"
    and "new_effects st (snd (updateOrderStatus e st i ns)) =
           Saved OrderModel i #
           (if io e \<and> (status od \<in> set kitchenRelevantStatuses \<or> ns \<in> set kitchenRelevantStatuses)
            then update_notification e i else []) @
           (if redisConnected e
            then map DeleteCache
                   (entity_keys i (od\<lparr>status := ns, updatedAt := now e\<rparr>)
                      (findOne (\<lambda>s. i \<in> set (session_orders s)) (TableSessions st)) @
                    kitchen_keys (status od) ns)
            else [])"
  using assms
  by (auto simp add: updateOrderStatus_def Let_def new_effects_def save_Order_def
      status_invalidation_effects status_invalidation_store
      notifyKitchenAboutOrderUpdate_effects notifyKitchenAboutOrderUpdate_store)

text \<open>In every other case nothing is written, dropped or emitted.\<close>

lemma updateOrderStatus_uncommitted:
  assumes "ns = [] \<or> findById (Orders st) i = None \<or>
           (\<exists>od. findById (Orders st) i = Some od \<and>
              (status od = ns \<or> \<not> order_valid (od\<lparr>status := ns, updatedAt := now e\<rparr>)))"
  shows "snd (updateOrderStatus e st i ns) = st"
  using assms
  by (auto simp add: updateOrderStatus_def Let_def split: option.splits)

lemma updateOrderStatus_same_status:
  assumes "findById (Orders st) i = Some od" and "status od = ns" and "ns \<noteq> []"
  shows "updateOrderStatus e st i ns =
           (Json 200 (OrderBody (''Order status is already '' @ ns) i od), st)"
  using assms by (simp add: updateOrderStatus_def)

lemma updateOrderStatus_not_found:
  assumes "findById (Orders st) i = None" and "ns \<noteq> []"
  shows "updateOrderStatus e st i ns = (Json 404 (Message ''Order not found''), st)"
  using assms by (simp add: updateOrderStatus_def)

text \<open>A change to a status of the schema's enumeration is committed.\<close>

lemma updateOrderStatus_enumerated:
  assumes "findById (Orders st) i = Some od" and "order_valid od" and "status od \<noteq> ns"
    and "ns \<in> set status_enum"
  shows "fst (updateOrderStatus e st i ns) =
           Json 200 (OrderBody ''Order status updated successfully'' i (od\<lparr>status := ns, updatedAt := now e\<rparr>))"
    and "findById (Orders (snd (updateOrderStatus e st i ns))) i = Some (od\<lparr>status := ns, updatedAt := now e\<rparr>)"
proof -
  from assms(4) have ne: "ns \<noteq> []" by (auto simp add: status_enum_def)
  from assms(2,4) have v: "order_valid (od\<lparr>status := ns, updatedAt := now e\<rparr>)"
    by (simp add: order_valid_def)
  show "fst (updateOrderStatus e st i ns) =
           Json 200 (OrderBody ''Order status updated successfully'' i (od\<lparr>status := ns, updatedAt := now e\<rparr>))"
    by (rule updateOrderStatus_committed(1) [OF assms(1,3) ne v])
  show "findById (Orders (snd (updateOrderStatus e st i ns))) i = Some (od\<lparr>status := ns, updatedAt := now e\<rparr>)"
    by (simp add: updateOrderStatus_committed(2) [OF assms(1,3) ne v] findById_save_doc)
qed

lemma ex_kitchen_order:
  "findById (Orders ex_kitchen_state) 30 = Some (ex_order\<lparr>status := ''preparing''\<rparr>)"
  "findById (Orders ex_ready_state) 30 = Some (ex_order\<lparr>status := ''ready_for_pickup''\<rparr>)"
  by (simp_all add: ex_kitchen_state_def ex_ready_state_def findById_def)

lemma ex_order_status_valid:
  "ns \<in> set status_enum \<Longrightarrow> order_valid (ex_order\<lparr>status := ns, updatedAt := t\<rparr>)"
  using ex_order_valid by (simp add: order_valid_def)

lemma ex_sessions:
  "findOne (\<lambda>s. 30 \<in> set (session_orders s)) (TableSessions ex_kitchen_state) = None"
  "findOne (\<lambda>s. 30 \<in> set (session_orders s)) (TableSessions ex_ready_state) = None"
  by (simp_all add: ex_kitchen_state_def ex_ready_state_def ex_state_def ex_session_def findOne_def)

lemma ex_env_fields:
  "io ex_env" "redisConnected ex_env" "kitchenSocketId ex_env = Some ''k1''" "now ex_env = 100"
  by (simp_all add: ex_env_def)

lemma ex_ready_trace:
  "new_effects ex_ready_state (snd (updateOrderStatus ex_env ex_ready_state 30 ''cancelled'')) =
     [Saved OrderModel 30, Emit (Socket ''k1'') ''order_status_updated'' [30],
      DeleteCache KITCHEN_ORDERS_CACHE, DeleteCache (ORDER_DETAILS_CACHE 30),
      DeleteCache (USER_ORDERS_CACHE 7), DeleteCache COMPLETED_ORDERS_CACHE]"
proof -
  have v: "order_valid (ex_order\<lparr>status := ''ready_for_pickup'', status := ''cancelled'', updatedAt := now ex_env\<rparr>)"
    using ex_order_status_valid [of "''cancelled''"] by (simp add: status_enum_def)
  show ?thesis
    by (subst updateOrderStatus_committed(3) [OF ex_kitchen_order(2) _ _ v])
       (simp_all add: ex_env_fields ex_sessions update_notification_def entity_keys_def
          kitchen_keys_def activeStatuses_def completedStatuses_def kitchenRelevantStatuses_def
          ex_order_def)
qed

lemma ex_kitchen_trace:
  "new_effects ex_kitchen_state (snd (updateOrderStatus ex_env ex_kitchen_state 30 ''ready_for_pickup'')) =
     [Saved OrderModel 30, Emit (Socket ''k1'') ''order_status_updated'' [30],
      DeleteCache KITCHEN_ORDERS_CACHE, DeleteCache (ORDER_DETAILS_CACHE 30),
      DeleteCache (USER_ORDERS_CACHE 7), DeleteCache KITCHEN_ORDERS_CACHE,
      DeleteCache COMPLETED_ORDERS_CACHE]"
proof -
  have v: "order_valid (ex_order\<lparr>status := ''preparing'', status := ''ready_for_pickup'', updatedAt := now ex_env\<rparr>)"
    using ex_order_status_valid [of "''ready_for_pickup''"] by (simp add: status_enum_def)
  show ?thesis
    by (subst updateOrderStatus_committed(3) [OF ex_kitchen_order(1) _ _ v])
       (simp_all add: ex_env_fields ex_sessions update_notification_def entity_keys_def
          kitchen_keys_def activeStatuses_def completedStatuses_def kitchenRelevantStatuses_def
          ex_order_def)
qed

section \<open>Facts about createOrder\<close>

lemma new_order_pending: "new_order e st rq = Inr od \<Longrightarrow> status od = ''pending''"
  by (auto simp add: new_order_def Let_def split: if_splits sum.splits prod.splits)

lemma created_effects:
  "status od = ''pending'' \<Longrightarrow>
   effects (snd (created e i od st)) = effects st @ new_order_notification e i"
  by (simp add: created_def notifyKitchenAboutNewOrder_def new_order_notification_def emit_def
      deleteCache_def activeStatuses_def split: option.splits)

text \<open>The effects of a call that reaches the save, and the calls that do not reach it.\<close>

lemma createOrder_effects:
  assumes "new_order e st rq = Inr od" and "order_valid od"
  shows "new_effects st (snd (createOrder e st rq)) =
           Saved OrderModel (nextId st) #
           (case req_sessionId rq of
              None \<Rightarrow> new_order_notification e (nextId st)
            | Some sid \<Rightarrow>
                (case findById (TableSessions st) sid of
                   None \<Rightarrow> []
                 | Some s \<Rightarrow>
                     Saved TableSessionModel sid #
                     (if io e \<and> req_tableId rq \<noteq> []
                      then [Emit (Room (''table_'' @ req_tableId rq)) ''new_order'' [sid, nextId st]]
                      else []) @
                     new_order_notification e (nextId st)))"
  using assms new_order_pending [OF assms(1)]
  by (auto simp add: createOrder_def new_id_def save_Order_def save_TableSession_def Let_def
      created_effects new_effects_def emit_def split: option.splits)

lemma createOrder_refused:
  assumes "\<not> (\<exists>od. new_order e st rq = Inr od \<and> order_valid od)"
  shows "snd (createOrder e st rq) = st"
  using assms by (auto simp add: createOrder_def split: sum.splits)

lemma new_order_notification_order:
  "\<not> list_ex is_saved (new_order_notification e i)"
  "precedes is_emit is_delete (new_order_notification e i)"
  "precedes P is_saved (new_order_notification e i)"
  by (auto simp add: new_order_notification_def split: option.splits)

lemma ex_create_trace:
  "new_effects ex_state (snd (createOrder ex_env ex_state ex_request)) =
     [Saved OrderModel 30, Saved TableSessionModel 20,
      Emit (Room ''table_T1'') ''new_order'' [20, 30],
      Emit (Socket ''k1'') ''new_kitchen_order'' [30], DeleteCache KITCHEN_ORDERS_CACHE]"
proof -
  have h1: "new_order ex_env ex_state ex_request = Inr ex_order"
    using ex_new_order [of "Some 20"] by (simp add: ex_request_def)
  show ?thesis
    by (subst createOrder_effects [OF h1 ex_order_valid])
       (simp add: ex_request_def ex_state_def findById_def new_order_notification_def ex_env_fields)
qed

lemma order_lines_Inr:
  "order_lines menu its sub acc = Inr (sub', ls) \<Longrightarrow>
   \<exists>new. ls = acc @ new \<and> sub' = foldl (+) sub (map item_total new) \<and>
         list_all2 (line_snapshot menu) its new"
proof (induction its arbitrary: sub acc)
  case Nil
  then show ?case by simp
next
  case (Cons it its)
  from Cons.prems obtain mid m where
    mid: "req_menuItemId it = Some mid" and q: "req_quantity it \<noteq> 0"
    and m: "findById menu mid = Some m" and av: "isAvailable m"
    by (auto split: option.splits if_splits)
  let ?l = "\<lparr>menuItem = mid, name = item_name m, price = item_price m,
              quantity = req_quantity it, item_total = item_price m * req_quantity it,
              specialInstructions = req_specialInstructions it\<rparr>"
  from Cons.prems mid q m av
  have "order_lines menu its (sub + item_price m * req_quantity it) (acc @ [?l]) = Inr (sub', ls)"
    by (simp add: Let_def)
  from Cons.IH [OF this] obtain new where
    new: "ls = (acc @ [?l]) @ new"
      "sub' = foldl (+) (sub + item_price m * req_quantity it) (map item_total new)"
      "list_all2 (line_snapshot menu) its new" by blast
  have "line_snapshot menu it ?l" using mid m by (simp add: line_snapshot_def)
  with new show ?case by (intro exI [of _ "?l # new"]) simp
qed

lemma new_order_monetary:
  assumes "new_order e st rq = Inr od"
  shows "list_all2 (line_snapshot (MenuItems st)) (req_items rq) (items od) \<and>
         subtotal od = foldl (+) 0 (map item_total (items od)) \<and>
         deliveryFee od = (if orderType od = ''Delivery'' then lit_2_0 else 0) \<and>
         order_total od = subtotal od + deliveryFee od"
proof -
  from assms obtain sub ls where
    ol: "order_lines (MenuItems st) (req_items rq) 0 [] = Inr (sub, ls)"
    by (auto simp add: new_order_def Let_def split: if_splits sum.splits)
  from assms ol have od: "items od = ls" "subtotal od = sub" "orderType od = req_orderType rq"
    "deliveryFee od = (if req_orderType rq = ''Delivery'' then lit_2_0 else 0)"
    "order_total od = sub + (if req_orderType rq = ''Delivery'' then lit_2_0 else 0)"
    by (auto simp add: new_order_def Let_def split: if_splits)
  from order_lines_Inr [OF ol] od show ?thesis by auto
qed

lemma created_store:
  "Orders (snd (created e i od st)) = Orders st"
  "TableSessions (snd (created e i od st)) = TableSessions st"
  "Tables (snd (created e i od st)) = Tables st"
  "Bills (snd (created e i od st)) = Bills st"
  by (simp_all add: created_def notifyKitchenAboutNewOrder_def emit_def deleteCache_def
      split: option.splits)

lemma createOrder_Orders:
  assumes "new_order e st rq = Inr od" and "order_valid od"
  shows "Orders (snd (createOrder e st rq)) = save_doc (nextId st) od (Orders st)"
  using assms
  by (auto simp add: createOrder_def new_id_def save_Order_def save_TableSession_def Let_def
      created_store emit_def split: option.splits)

text \<open>What a call leaves alone, and what it does to the session it names.\<close>

lemma new_order_cong:
  "Users st' = Users st \<Longrightarrow> MenuItems st' = MenuItems st \<Longrightarrow> Tables st' = Tables st \<Longrightarrow>
   new_order e st' rq = new_order e st rq"
  by (simp only: new_order_def)

lemma created_frame:
  "Users (snd (created e i od st)) = Users st"
  "MenuItems (snd (created e i od st)) = MenuItems st"
  "nextId (snd (created e i od st)) = nextId st"
  by (simp_all add: created_def notifyKitchenAboutNewOrder_def emit_def deleteCache_def
      split: option.splits)

lemma createOrder_frame:
  "Users (snd (createOrder e st rq)) = Users st"
  "MenuItems (snd (createOrder e st rq)) = MenuItems st"
  "Tables (snd (createOrder e st rq)) = Tables st"
  by (auto simp add: createOrder_def new_id_def save_Order_def save_TableSession_def Let_def
      created_frame created_store emit_def split: option.splits sum.splits)

lemma createOrder_attached:
  assumes "new_order e st rq = Inr od" and "order_valid od"
    and "req_sessionId rq = Some sid" and "findById (TableSessions st) sid = Some s"
  shows "TableSessions (snd (createOrder e st rq)) =
           save_doc sid (orders_push (nextId st) s) (TableSessions st)"
    and "nextId (snd (createOrder e st rq)) = Suc (nextId st)"
  using assms
  by (auto simp add: createOrder_def new_id_def save_Order_def save_TableSession_def Let_def
      created_frame created_store emit_def)

lemma ex_new_delivery: "new_order ex_env ex_state ex_delivery_request = Inr ex_delivery_order"
  by (simp add: new_order_def ex_env_def ex_state_def ex_request_def ex_order_def ex_menu_def
      ex_delivery_request_def ex_delivery_order_def findById_def findOne_def ex_table_def Let_def
      lit_2_0_def)

lemma ex_delivery_valid: "order_valid ex_delivery_order"
  by (simp add: order_valid_def ex_order_def ex_delivery_order_def orderType_enum_def status_enum_def
      paymentStatus_enum_def paymentMethod_enum_def)

section \<open>Facts about updatePaymentStatus\<close>

lemma set_save_doc:
  "distinct (map fst c) \<Longrightarrow> set (save_doc i d c) = {(j, e) \<in> set c. j \<noteq> i} \<union> {(i, d)}"
proof (induction i d c rule: save_doc.induct)
  case (1 i d)
  then show ?case by simp
next
  case (2 i d j e c)
  then show ?case by (cases "j = i") (auto simp add: rev_image_eqI)
qed

lemma countDocuments_0: "countDocuments P c = 0 \<longleftrightarrow> (\<forall>(j, d) \<in> set c. \<not> P j d)"
  by (auto simp add: countDocuments_def find_docs_def filter_empty_conv)

lemma findById_release_table:
  "findById (Tables (release_table ref st)) tid =
     (if ref = Some tid
      then map_option (\<lambda>t. t\<lparr>table_status := Cleaning, currentSession := None\<rparr>) (findById (Tables st) tid)
      else findById (Tables st) tid)"
  by (auto simp add: release_table_def save_Table_def findById_save_doc split: option.splits)

lemma release_table_store:
  "TableSessions (release_table ref st) = TableSessions st"
  "Orders (release_table ref st) = Orders st"
  "Bills (release_table ref st) = Bills st"
  by (simp_all add: release_table_def save_Table_def split: option.splits)

lemma payment_invalidation_store:
  "Orders (payment_invalidation i od session st) = Orders st"
  "Tables (payment_invalidation i od session st) = Tables st"
  "TableSessions (payment_invalidation i od session st) = TableSessions st"
  "Bills (payment_invalidation i od session st) = Bills st"
  by (simp_all add: payment_invalidation_def deleteCache_def Let_def split: option.splits)

text \<open>The cascade runs exactly when the session is payment_pending and no listed order is unpaid.\<close>

lemma payment_cascade_runs:
  assumes "session_status s = PaymentPending" and "all_paid s st"
  shows "fst (payment_cascade e (Some (sid, s)) st) = True"
    and "findById (TableSessions (snd (payment_cascade e (Some (sid, s)) st))) sid =
           Some (s\<lparr>session_status := Closed, endTime := Some (now e)\<rparr>)"
    and "findById (Tables (snd (payment_cascade e (Some (sid, s)) st))) tid =
           (if session_tableId s = Some tid
            then map_option (\<lambda>t. t\<lparr>table_status := Cleaning, currentSession := None\<rparr>)
                   (findById (Tables st) tid)
            else findById (Tables st) tid)"
  using assms
  by (simp_all add: payment_cascade_def all_paid_def Let_def findById_release_table
      release_table_store save_TableSession_def findById_save_doc)

lemma payment_cascade_skips:
  assumes "session_status s \<noteq> PaymentPending \<or> \<not> all_paid s st"
  shows "payment_cascade e (Some (sid, s)) st = (False, st)"
  using assms by (auto simp add: payment_cascade_def all_paid_def Let_def)

lemma updatePaymentStatus_paid:
  assumes "findById (Orders st) i = Some od" and "order_valid od"
  shows "updatePaymentStatus e st i ''paid'' pid =
     (let od' = od\<lparr>paymentStatus := ''paid'',
                   paymentId := (if pid \<noteq> [] then Some pid else paymentId od),
                   updatedAt := now e\<rparr>;
          st1 = save_Order i od' st;
          session = findOne (\<lambda>s. i \<in> set (session_orders s)) (TableSessions st);
          c = payment_cascade e session st1
      in (Json 200 (PaymentBody ''Payment status updated successfully'' i ''paid'' (paymentId od') (fst c)),
          if redisConnected e then payment_invalidation i od' session (snd c) else snd c))"
  using assms
  by (simp add: updatePaymentStatus_def Let_def order_valid_def paymentStatus_enum_def
      save_Order_def split: prod.splits)

lemma all_paid_after_save:
  assumes "distinct (map fst (Orders st))"
  shows "all_paid s (save_Order i (od\<lparr>paymentStatus := ''paid'', paymentId := x, updatedAt := t\<rparr>) st) \<longleftrightarrow>
         (\<forall>(j, d) \<in> set (Orders st). j \<in> set (session_orders s) \<and> j \<noteq> i \<longrightarrow> paymentStatus d = ''paid'')"
  using assms
  by (auto simp add: all_paid_def countDocuments_0 save_Order_def set_save_doc)

text \<open>
  What \<open>updatePaymentStatus\<close> does to sessions and tables is what the cascade does after
  the order is saved; and the cascade on a session that carries its table under \<open>tableId\<close>,
  as the sessions started by the socket events do.
\<close>

lemma updatePaymentStatus_store:
  assumes "findById (Orders st) i = Some od" and "order_valid od"
    and "findOne (\<lambda>s. i \<in> set (session_orders s)) (TableSessions st) = session"
  shows "TableSessions (snd (updatePaymentStatus e st i ''paid'' pid)) =
           TableSessions (snd (payment_cascade e session
             (save_Order i (od\<lparr>paymentStatus := ''paid'',
                               paymentId := (if pid \<noteq> [] then Some pid else paymentId od),
                               updatedAt := now e\<rparr>) st)))"
    and "Tables (snd (updatePaymentStatus e st i ''paid'' pid)) =
           Tables (snd (payment_cascade e session
             (save_Order i (od\<lparr>paymentStatus := ''paid'',
                               paymentId := (if pid \<noteq> [] then Some pid else paymentId od),
                               updatedAt := now e\<rparr>) st)))"
  using assms(3)
  by (simp_all add: updatePaymentStatus_paid [OF assms(1,2)] Let_def payment_invalidation_store)

lemma updatePaymentStatus_cascade_with_tableId:
  assumes "distinct (map fst (Orders st))"
    and "findById (Orders st) i = Some od" and "order_valid od"
    and "findOne (\<lambda>s. i \<in> set (session_orders s)) (TableSessions st) = Some (sid, s)"
  shows "(let st' = snd (updatePaymentStatus e st i ''paid'' pid) in
      (session_status s = PaymentPending \<and>
       (\<forall>(j, d) \<in> set (Orders st). j \<in> set (session_orders s) \<and> j \<noteq> i \<longrightarrow> paymentStatus d = ''paid'') \<longrightarrow>
         findById (TableSessions st') sid = Some (s\<lparr>session_status := Closed, endTime := Some (now e)\<rparr>) \<and>
         (\<forall>tid t. session_tableId s = Some tid \<and> findById (Tables st) tid = Some t \<longrightarrow>
            findById (Tables st') tid = Some (t\<lparr>table_status := Cleaning, currentSession := None\<rparr>))) \<and>
      ((\<exists>(j, d) \<in> set (Orders st). j \<in> set (session_orders s) \<and> j \<noteq> i \<and> paymentStatus d \<noteq> ''paid'') \<longrightarrow>
         TableSessions st' = TableSessions st \<and> Tables st' = Tables st))"
proof -
  let ?od' = "od\<lparr>paymentStatus := ''paid'', paymentId := (if pid \<noteq> [] then Some pid else paymentId od),
                 updatedAt := now e\<rparr>"
  let ?st1 = "save_Order i ?od' st"
  let ?others_paid = "\<forall>(j, d) \<in> set (Orders st). j \<in> set (session_orders s) \<and> j \<noteq> i \<longrightarrow> paymentStatus d = ''paid''"
  define st' where "st' = snd (updatePaymentStatus e st i ''paid'' pid)"
  have ap: "all_paid s ?st1 \<longleftrightarrow> ?others_paid"
    by (rule all_paid_after_save [OF assms(1)])
  have st1: "Tables ?st1 = Tables st" "TableSessions ?st1 = TableSessions st"
    by (simp_all add: save_Order_def)
  note store = updatePaymentStatus_store [OF assms(2,3,4), of e pid, folded st'_def]
  have closes: "findById (TableSessions st') sid = Some (s\<lparr>session_status := Closed, endTime := Some (now e)\<rparr>) \<and>
      (\<forall>tid t. session_tableId s = Some tid \<and> findById (Tables st) tid = Some t \<longrightarrow>
         findById (Tables st') tid = Some (t\<lparr>table_status := Cleaning, currentSession := None\<rparr>))"
    if "session_status s = PaymentPending" and "?others_paid"
  proof -
    from that ap have paid: "all_paid s ?st1" by simp
    show ?thesis
      by (simp add: store payment_cascade_runs(2,3) [OF that(1) paid] st1)
  qed
  have keeps: "TableSessions st' = TableSessions st \<and> Tables st' = Tables st"
    if "\<exists>(j, d) \<in> set (Orders st). j \<in> set (session_orders s) \<and> j \<noteq> i \<and> paymentStatus d \<noteq> ''paid''"
  proof -
    from that ap have "\<not> all_paid s ?st1" by auto
    then have "payment_cascade e (Some (sid, s)) ?st1 = (False, ?st1)"
      by (intro payment_cascade_skips) simp
    then show ?thesis by (simp add: store st1)
  qed
  from closes keeps show ?thesis
    unfolding Let_def st'_def by blast
qed

lemma payment_cascade_Tables:
  assumes "session_status s = PaymentPending" and "all_paid s st" and "session_tableId s = None"
  shows "Tables (snd (payment_cascade e (Some (sid, s)) st)) = Tables st"
  using assms
  by (simp add: payment_cascade_def all_paid_def Let_def release_table_def save_TableSession_def)

lemma startTableSession_session:
  assumes "findById (Tables st) tid = Some t" and "isActive t" and "table_status t = Available"
  shows "findById (TableSessions (snd (startTableSession e st tid))) (nextId st) =
           Some \<lparr>session_table = Some tid, session_tableId = None, clientId = None,
                 session_status = Active, startTime = now e, endTime = None, session_orders = []\<rparr>"
  using assms
  by (simp add: startTableSession_def new_id_def save_TableSession_def save_Table_def Let_def
      findById_save_doc)

section \<open>The session that is started, served and billed over HTTP\<close>

lemma ex_http_started_eq:
  "ex_http_started =
     ex_free_state\<lparr>Tables := [(10, ex_table\<lparr>currentSession := Some 30\<rparr>)],
                   TableSessions := [(30, ex_http_session)], nextId := 31,
                   effects := [Saved TableSessionModel 30, Saved TableModel 10]\<rparr>"
  by (simp add: ex_http_started_def startTableSession_def ex_free_state_def ex_state_def
      ex_table_def ex_http_session_def ex_env_def findById_def new_id_def save_Table_def
      save_TableSession_def Let_def)

lemma ex_http_new_order:
  "new_order ex_env ex_http_started (ex_request\<lparr>req_sessionId := x\<rparr>) = Inr ex_order"
  by (simp add: ex_http_started_eq new_order_def ex_env_def ex_free_state_def ex_state_def
      ex_request_def ex_order_def ex_menu_def findById_def findOne_def ex_table_def Let_def)

lemma ex_http_ordered_store:
  "Tables ex_http_ordered = [(10, ex_table\<lparr>currentSession := Some 30\<rparr>)]"
  "TableSessions ex_http_ordered = [(30, ex_http_session\<lparr>session_orders := [31]\<rparr>)]"
  "Orders ex_http_ordered = [(31, ex_order)]"
  "Bills ex_http_ordered = []"
  "nextId ex_http_ordered = 32"
  using ex_http_new_order [of "Some 30"] ex_order_valid
  by (simp_all add: ex_http_ordered_def createOrder_def ex_http_started_eq ex_free_state_def
      ex_state_def new_id_def save_Order_def save_TableSession_def created_def
      notifyKitchenAboutNewOrder_def emit_def deleteCache_def findById_def orders_push_def
      Let_def ex_env_def ex_http_session_def)

lemma ex_http_billed_store:
  "Tables ex_http_billed = [(10, ex_table\<lparr>currentSession := Some 30\<rparr>)]"
  "TableSessions ex_http_billed =
     [(30, ex_http_session\<lparr>session_status := PaymentPending, session_orders := [31]\<rparr>)]"
  "Orders ex_http_billed = [(31, ex_order)]"
  "Bills ex_http_billed =
     [(32, \<lparr>tableSessionId = 30, bill_total = 13.5, bill_paymentStatus = ''pending'',
            bill_paymentMethod = None, processedBy = None\<rparr>)]"
  by (simp_all add: ex_http_billed_def generateBillForSession_def ex_http_ordered_store
      findOne_def findById_def create_bill_def session_total_def find_docs_def new_id_def
      save_Bill_def save_TableSession_def Let_def ex_http_session_def ex_order_def)

section \<open>Facts about the table invariant\<close>



















section \<open>The payment cascade\<close>

text \<open>
  C1. The claim has the last payment of a payment_pending session close the session and
  put its table to cleaning with no current session. The cascade of \<open>updatePaymentStatus\<close>
  looks the table up under \<open>session.tableId\<close>. \<open>startTableSession\<close> stores the table of the
  session it creates under \<open>table\<close> and leaves \<open>tableId\<close> absent (lemma
  \<open>startTableSession_session\<close>). So for every payment_pending session without \<open>tableId\<close>,
  when the order set to paid is the last unpaid one, the session is closed with its end
  time set and every table stays as it was: the table of the session remains occupied and
  keeps pointing to the closed session. For a session that carries \<open>tableId\<close> the claim
  holds, and so does its second half for every session (lemma
  \<open>updatePaymentStatus_cascade_with_tableId\<close>).
\<close>

theorem updatePaymentStatus_cascade_misses_table:
  assumes "distinct (map fst (Orders st))"
    and "findById (Orders st) i = Some od" and "order_valid od"
    and "findOne (\<lambda>s. i \<in> set (session_orders s)) (TableSessions st) = Some (sid, s)"
    and "session_status s = PaymentPending"
    and "\<forall>(j, d) \<in> set (Orders st). j \<in> set (session_orders s) \<and> j \<noteq> i \<longrightarrow> paymentStatus d = ''paid''"
    and "session_tableId s = None"
  shows "findById (TableSessions (snd (updatePaymentStatus e st i ''paid'' pid))) sid =
           Some (s\<lparr>session_status := Closed, endTime := Some (now e)\<rparr>) \<and>
         Tables (snd (updatePaymentStatus e st i ''paid'' pid)) = Tables st"
proof -
  let ?od' = "od\<lparr>paymentStatus := ''paid'', paymentId := (if pid \<noteq> [] then Some pid else paymentId od),
                 updatedAt := now e\<rparr>"
  let ?st1 = "save_Order i ?od' st"
  from assms(6) have paid: "all_paid s ?st1"
    by (simp add: all_paid_after_save [OF assms(1)])
  have st1: "Tables ?st1 = Tables st" by (simp add: save_Order_def)
  show ?thesis
    by (simp add: updatePaymentStatus_store [OF assms(2,3,4)]
        payment_cascade_runs(2) [OF assms(5) paid]
        payment_cascade_Tables [OF assms(5) paid assms(7)] st1)
qed

text \<open>
  The session of table T1 started with \<open>startTableSession\<close>, the order of the scenario
  placed into it with \<open>createOrder\<close>, the bill generated with \<open>generateBillForSession\<close>,
  and the order paid: the session is closed and the table is still occupied by it.
\<close>

theorem updatePaymentStatus_cascade_misses_table_witness:
  "ex_http_billed = snd (generateBillForSession ex_env
      (snd (createOrder ex_env (snd (startTableSession ex_env ex_free_state 10))
         (ex_request\<lparr>req_sessionId := Some 30\<rparr>))) 30) \<and>
   Orders ex_http_billed = [(31, ex_order)] \<and>
   TableSessions ex_http_billed =
     [(30, ex_http_session\<lparr>session_status := PaymentPending, session_orders := [31]\<rparr>)] \<and>
   Tables ex_http_billed = [(10, ex_table\<lparr>currentSession := Some 30\<rparr>)] \<and>
   findById (TableSessions (snd (updatePaymentStatus ex_env ex_http_billed 31 ''paid'' []))) 30 =
     Some (ex_http_session\<lparr>session_status := Closed, endTime := Some 100, session_orders := [31]\<rparr>) \<and>
   findById (Tables (snd (updatePaymentStatus ex_env ex_http_billed 31 ''paid'' []))) 10 =
     Some \<lparr>tableId = ''T1'', isActive = True, table_status = Occupied, currentSession = Some 30\<rparr>"
proof -
  let ?s = "ex_http_session\<lparr>session_status := PaymentPending, session_orders := [31]\<rparr>"
  have flow: "ex_http_billed = snd (generateBillForSession ex_env
      (snd (createOrder ex_env (snd (startTableSession ex_env ex_free_state 10))
         (ex_request\<lparr>req_sessionId := Some 30\<rparr>))) 30)"
    by (simp add: ex_http_billed_def ex_http_ordered_def ex_http_started_def)
  have d: "distinct (map fst (Orders ex_http_billed))" by (simp add: ex_http_billed_store)
  have o: "findById (Orders ex_http_billed) 31 = Some ex_order"
    by (simp add: ex_http_billed_store findById_def)
  have s: "findOne (\<lambda>s. 31 \<in> set (session_orders s)) (TableSessions ex_http_billed) = Some (30, ?s)"
    by (simp add: ex_http_billed_store findOne_def)
  have p: "session_status ?s = PaymentPending" by simp
  have a: "\<forall>(j, d) \<in> set (Orders ex_http_billed). j \<in> set (session_orders ?s) \<and> j \<noteq> 31 \<longrightarrow> paymentStatus d = ''paid''"
    by (simp add: ex_http_billed_store)
  have n: "session_tableId ?s = None" by (simp add: ex_http_session_def)
  from updatePaymentStatus_cascade_misses_table [OF d o ex_order_valid s p a n, of ex_env "[]"] flow
  show ?thesis
    by (simp add: ex_http_billed_store ex_env_fields findById_def ex_table_def)
qed

section \<open>The table invariant\<close>




section \<open>Generating a bill for a session that has one\<close>

text \<open>
  A closed session that has its bill: \<open>endSessionAndGenerateBill\<close> answers 400 "Session is
  already closed" and the answer carries no bill id.
\<close>

theorem endSessionAndGenerateBill_closed_counterexample:
  "Bills ex_closed_state = [(40, ex_bill)] \<and> tableSessionId ex_bill = 20 \<and>
   endSessionAndGenerateBill ex_env ex_closed_state 20 =
     (Json 400 (Message ''Session is already closed''), ex_closed_state)"
  by (simp add: endSessionAndGenerateBill_def ex_closed_state_def findOne_def findById_def ex_bill_def
      ex_state_def)

text \<open>
  C3, amended. For every session that already has a bill, neither generation path creates
  a second bill or changes a bill. \<open>generateBillForSession\<close> answers 400 with the id of
  the existing bill and changes nothing. \<open>endSessionAndGenerateBill\<close> answers 200 with the
  id, total and payment status of the existing bill when the session exists and is not
  closed, setting the session to payment_pending; it answers 400 without a bill id when the
  session is closed and 404 when the session does not exist, changing nothing.
\<close>

theorem bill_generation_with_existing_bill:
  assumes "findOne (\<lambda>b. tableSessionId b = sid) (Bills st) = Some (bid, b)"
  shows "generateBillForSession e st sid =
           (Json 400 (BillExists ''Bill already exists for this session'' bid), st) \<and>
         Bills (snd (endSessionAndGenerateBill e st sid)) = Bills st \<and>
         (case findById (TableSessions st) sid of
            None \<Rightarrow> endSessionAndGenerateBill e st sid = (Json 404 (Message ''Session not found''), st)
          | Some s \<Rightarrow>
              if session_status s = Closed
              then endSessionAndGenerateBill e st sid =
                     (Json 400 (Message ''Session is already closed''), st)
              else endSessionAndGenerateBill e st sid =
                     (Json 200 (BillBody ''Session ended and bill generated successfully'' bid
                                  (bill_total b) (bill_paymentStatus b)),
                      save_TableSession sid (s\<lparr>session_status := PaymentPending\<rparr>) st))"
  using assms
  by (simp add: generateBillForSession_def endSessionAndGenerateBill_def Let_def
      save_TableSession_def split: option.splits)

theorem bill_generation_with_existing_bill_witness:
  "findOne (\<lambda>b. tableSessionId b = 20) (Bills ex_billed_state) =
     Some (40, ex_bill\<lparr>bill_paymentStatus := ''pending''\<rparr>) \<and>
   generateBillForSession ex_env ex_billed_state 20 =
     (Json 400 (BillExists ''Bill already exists for this session'' 40), ex_billed_state) \<and>
   fst (endSessionAndGenerateBill ex_env ex_billed_state 20) =
     Json 200 (BillBody ''Session ended and bill generated successfully'' 40 13.5 ''pending'') \<and>
   Bills (snd (endSessionAndGenerateBill ex_env ex_billed_state 20)) = Bills ex_billed_state"
proof -
  have h: "findOne (\<lambda>b. tableSessionId b = 20) (Bills ex_billed_state) =
     Some (40, ex_bill\<lparr>bill_paymentStatus := ''pending''\<rparr>)"
    by (simp add: ex_billed_state_def findOne_def ex_bill_def)
  have s: "findById (TableSessions ex_billed_state) 20 =
     Some (ex_session\<lparr>session_status := PaymentPending, session_orders := [30]\<rparr>)"
    by (simp add: ex_billed_state_def findById_def)
  from bill_generation_with_existing_bill [OF h, of ex_env] h s
  show ?thesis by (simp add: ex_bill_def save_TableSession_def)
qed

section \<open>The amounts of a created order\<close>

text \<open>
  C4. Every order that a call of \<open>createOrder\<close> adds to the store, whatever the list of
  requested items, has one line per requested item, each with the unit price the menu had
  for that item when the order was placed, the requested quantity and their product as
  line total; its subtotal is the sum of the line totals, added to 0 one after the other in
  the order of the lines, as the handler adds them; its delivery fee is 2.0 for a Delivery
  order and 0 otherwise; and its total is subtotal plus delivery fee. The numbers are of
  any type that has 0, 1, + and *, and no law of arithmetic is used: each equation holds
  with the products and sums that the handler itself computes, in doubles as elsewhere.
\<close>

theorem createOrder_monetary:
  assumes "createOrder e st rq = (r, st')"
    and "findById (Orders st) i = None" and "findById (Orders st') i = Some od"
  shows "list_all2 (line_snapshot (MenuItems st)) (req_items rq) (items od) \<and>
         subtotal od = foldl (+) 0 (map item_total (items od)) \<and>
         deliveryFee od = (if orderType od = ''Delivery'' then lit_2_0 else 0) \<and>
         order_total od = subtotal od + deliveryFee od"
proof (cases "\<exists>od0. new_order e st rq = Inr od0 \<and> order_valid od0")
  case True
  then obtain od0 where od0: "new_order e st rq = Inr od0" "order_valid od0" by blast
  from createOrder_Orders [OF od0] assms(1)
  have "Orders st' = save_doc (nextId st) od0 (Orders st)" by simp
  with assms(2,3) have "od = od0"
    by (simp add: findById_save_doc split: if_splits)
  with new_order_monetary [OF od0(1)] show ?thesis by simp
next
  case False
  from createOrder_refused [OF this] assms(1) have "st' = st" by simp
  with assms(2,3) show ?thesis by simp
qed

text \<open>
  The scenario of the specification, with real numbers for the amounts: unit prices 5.00
  and 3.50, quantities 2 and 1, give 13.50 with no fee for Dine In, and 15.50 with the fee
  of 2 for Delivery.
\<close>

theorem createOrder_monetary_witness:
  "findById (Orders ex_state) 30 = None \<and>
   findById (Orders (snd (createOrder ex_env ex_state ex_request))) 30 = Some ex_order \<and>
   list_all2 (line_snapshot ex_menu) (req_items ex_request) (items ex_order) \<and>
   foldl (+) 0 (map item_total (items ex_order)) = 13.5 \<and>
   (lit_2_0 :: real) = 2 \<and>
   subtotal ex_order = 13.5 \<and> deliveryFee ex_order = 0 \<and> order_total ex_order = 13.5 \<and>
   findById (Orders (snd (createOrder ex_env ex_state ex_delivery_request))) 30 = Some ex_delivery_order \<and>
   subtotal ex_delivery_order = 13.5 \<and> deliveryFee ex_delivery_order = 2 \<and>
   order_total ex_delivery_order = 15.5"
proof -
  have h1: "new_order ex_env ex_state ex_request = Inr ex_order"
    using ex_new_order [of "Some 20"] by (simp add: ex_request_def)
  have n: "findById (Orders ex_state) 30 = None" "nextId ex_state = 30" "Orders ex_state = []"
    "MenuItems ex_state = ex_menu"
    by (simp_all add: ex_state_def findById_def)
  have a: "findById (Orders (snd (createOrder ex_env ex_state ex_request))) 30 = Some ex_order"
    by (simp add: createOrder_Orders [OF h1 ex_order_valid] n findById_def)
  have b: "findById (Orders (snd (createOrder ex_env ex_state ex_delivery_request))) 30 =
             Some ex_delivery_order"
    by (simp add: createOrder_Orders [OF ex_new_delivery ex_delivery_valid] n findById_def)
  have c: "orderType ex_order = ''Dine In''" "orderType ex_delivery_order = ''Delivery''"
    "foldl (+) 0 (map item_total (items ex_order)) = 13.5"
    "items ex_delivery_order = items ex_order"
    by (simp_all add: ex_order_def ex_delivery_order_def)
  from createOrder_monetary [OF prod.collapse [symmetric] n(1) a]
    createOrder_monetary [OF prod.collapse [symmetric] n(1) b] n a b c
  show ?thesis by (simp add: lit_2_0_def)
qed

section \<open>Which kitchen aggregates a status change drops\<close>

text \<open>
  An order that is ready for pickup is cancelled, with the transport present, a kitchen
  socket registered and the cache connected. Both statuses are on the completed side, yet
  the key of the active aggregate is dropped: the notifier drops it after every emission.
\<close>

theorem updateOrderStatus_same_side_counterexample:
  "''ready_for_pickup'' \<in> set completedStatuses \<and> ''cancelled'' \<in> set completedStatuses \<and>
   DeleteCache KITCHEN_ORDERS_CACHE \<in>
     set (new_effects ex_ready_state (snd (updateOrderStatus ex_env ex_ready_state 30 ''cancelled'')))"
  by (simp add: ex_ready_trace completedStatuses_def)

text \<open>
  C5, amended. For every committed status change with the cache connected: a change across
  the active/completed boundary drops both kitchen aggregates; a change within the active
  side drops the active aggregate and not the completed one; a change within the completed
  side drops the completed aggregate, and drops the active one exactly when the kitchen is
  notified, that is when the transport is present and a kitchen socket is registered.
\<close>

theorem updateOrderStatus_kitchen_keys:
  assumes "findById (Orders st) i = Some od" and "status od \<noteq> ns" and "ns \<noteq> []"
    and "order_valid (od\<lparr>status := ns, updatedAt := now e\<rparr>)" and "redisConnected e"
  shows "(let tr = new_effects st (snd (updateOrderStatus e st i ns)); p = status od in
      ((p \<in> set activeStatuses \<and> ns \<in> set completedStatuses \<or>
        p \<in> set completedStatuses \<and> ns \<in> set activeStatuses) \<longrightarrow>
         DeleteCache KITCHEN_ORDERS_CACHE \<in> set tr \<and> DeleteCache COMPLETED_ORDERS_CACHE \<in> set tr) \<and>
      (p \<in> set activeStatuses \<and> ns \<in> set activeStatuses \<longrightarrow>
         DeleteCache KITCHEN_ORDERS_CACHE \<in> set tr \<and> DeleteCache COMPLETED_ORDERS_CACHE \<notin> set tr) \<and>
      (p \<in> set completedStatuses \<and> ns \<in> set completedStatuses \<longrightarrow>
         DeleteCache COMPLETED_ORDERS_CACHE \<in> set tr \<and>
         (DeleteCache KITCHEN_ORDERS_CACHE \<in> set tr \<longleftrightarrow> io e \<and> kitchenSocketId e \<noteq> None)))"
  unfolding Let_def updateOrderStatus_committed(3) [OF assms(1-4)]
  using assms(5)
  by (auto simp add: kitchen_keys_cases entity_keys_not_kitchen update_notification_keys
      completed_relevant image_iff)

text \<open>
  The boundary case of the specification, preparing to cancelled, and a change within the
  active side, preparing to confirmed, with no kitchen registered.
\<close>

theorem updateOrderStatus_kitchen_keys_witness:
  "findById (Orders ex_kitchen_state) 30 = Some (ex_order\<lparr>status := ''preparing''\<rparr>) \<and>
   redisConnected ex_env \<and>
   ''preparing'' \<in> set activeStatuses \<and> ''cancelled'' \<in> set completedStatuses \<and>
   ''confirmed'' \<in> set activeStatuses \<and>
   DeleteCache KITCHEN_ORDERS_CACHE \<in>
     set (new_effects ex_kitchen_state (snd (updateOrderStatus ex_env ex_kitchen_state 30 ''cancelled''))) \<and>
   DeleteCache COMPLETED_ORDERS_CACHE \<in>
     set (new_effects ex_kitchen_state (snd (updateOrderStatus ex_env ex_kitchen_state 30 ''cancelled''))) \<and>
   DeleteCache KITCHEN_ORDERS_CACHE \<in>
     set (new_effects ex_kitchen_state
            (snd (updateOrderStatus (ex_env\<lparr>kitchenSocketId := None\<rparr>) ex_kitchen_state 30 ''confirmed''))) \<and>
   DeleteCache COMPLETED_ORDERS_CACHE \<notin>
     set (new_effects ex_kitchen_state
            (snd (updateOrderStatus (ex_env\<lparr>kitchenSocketId := None\<rparr>) ex_kitchen_state 30 ''confirmed'')))"
proof -
  have h2: "status (ex_order\<lparr>status := ''preparing''\<rparr>) \<noteq> ''cancelled''"
    and h2': "status (ex_order\<lparr>status := ''preparing''\<rparr>) \<noteq> ''confirmed''"
    and h3: "''cancelled'' \<noteq> []" and h3': "''confirmed'' \<noteq> []"
    by simp_all
  have h4: "order_valid (ex_order\<lparr>status := ''preparing'', status := ''cancelled'', updatedAt := now ex_env\<rparr>)"
    using ex_order_status_valid [of "''cancelled''"] by (simp add: status_enum_def)
  have h4': "order_valid (ex_order\<lparr>status := ''preparing'', status := ''confirmed'',
                updatedAt := now (ex_env\<lparr>kitchenSocketId := None\<rparr>)\<rparr>)"
    using ex_order_status_valid [of "''confirmed''"] by (simp add: status_enum_def)
  have h5: "redisConnected ex_env" and h5': "redisConnected (ex_env\<lparr>kitchenSocketId := None\<rparr>)"
    by (simp_all add: ex_env_def)
  have sides: "''preparing'' \<in> set activeStatuses" "''cancelled'' \<in> set completedStatuses"
    "''confirmed'' \<in> set activeStatuses"
    by (simp_all add: activeStatuses_def completedStatuses_def)
  from updateOrderStatus_kitchen_keys [OF ex_kitchen_order(1) h2 h3 h4 h5]
    updateOrderStatus_kitchen_keys [OF ex_kitchen_order(1) h2' h3' h4' h5']
    ex_kitchen_order(1) h5 sides
  show ?thesis by (simp add: Let_def)
qed

section \<open>Refusing to start a session\<close>

text \<open>
  A start-session request for a table that is not active: the HTTP handler answers 400, not
  409.
\<close>

theorem startTableSession_answers_400_counterexample:
  "startTableSession ex_env ex_inactive_state 10 =
     (Json 400 (Message ''Table is not active''), ex_inactive_state) \<and>
   status_code (fst (startTableSession ex_env ex_inactive_state 10)) \<noteq> Some 409"
  by (simp add: startTableSession_def ex_inactive_state_def ex_free_state_def ex_state_def findById_def)

text \<open>
  C6, amended. A start-session request that cannot proceed is refused without creating a
  session and without changing a table. The HTTP handler \<open>startTableSession\<close> answers 400
  when the table is not active or its status is not available, and leaves the whole state
  as it was; it takes no client and makes no check on the client's sessions. The socket
  event \<open>initiate_session\<close> emits one \<open>error\<close> event in these two cases; and when the table
  is active and available, the user exists and the client has an active session, the
  \<open>error\<close> event carries the id of that session and its table reference.
\<close>

theorem start_session_refused:
  "(findById (Tables st) tid = Some t \<and> (\<not> isActive t \<or> table_status t \<noteq> Available) \<longrightarrow>
      startTableSession e st tid =
        (Json 400 (Message (if \<not> isActive t then ''Table is not active'' else ''Table is not available'')), st)) \<and>
   (code \<noteq> [] \<and> findOne (\<lambda>t. tableId t = code) (Tables st) = Some (tid', t') \<and>
    (\<not> isActive t' \<or> table_status t' \<noteq> Available) \<longrightarrow>
      TableSessions (initiate_session e st code (Some uid)) = TableSessions st \<and>
      Tables (initiate_session e st code (Some uid)) = Tables st \<and>
      new_effects st (initiate_session e st code (Some uid)) =
        [EmitError (if \<not> isActive t' then ''Table is not active'' else ''Table is not available'') None None]) \<and>
   (code \<noteq> [] \<and> findOne (\<lambda>t. tableId t = code) (Tables st) = Some (tid', t') \<and>
    isActive t' \<and> table_status t' = Available \<and> uid \<in> set (Users st) \<and>
    findOne (\<lambda>s. clientId s = Some uid \<and> session_status s = Active) (TableSessions st) = Some (xid, xs) \<longrightarrow>
      TableSessions (initiate_session e st code (Some uid)) = TableSessions st \<and>
      Tables (initiate_session e st code (Some uid)) = Tables st \<and>
      new_effects st (initiate_session e st code (Some uid)) =
        [EmitError ''You already have an active session at another table'' (Some xid) (session_tableId xs)])"
  by (auto simp add: startTableSession_def initiate_session_def emit_error_def new_effects_def)

text \<open>
  The deactivated table over HTTP; the occupied table over the socket; and the client of
  table T1 asking for the free table T2.
\<close>

theorem start_session_refused_witness:
  "startTableSession ex_env ex_inactive_state 10 =
     (Json 400 (Message ''Table is not active''), ex_inactive_state) \<and>
   TableSessions (initiate_session ex_env ex_state ''T1'' (Some 7)) = TableSessions ex_state \<and>
   Tables (initiate_session ex_env ex_state ''T1'' (Some 7)) = Tables ex_state \<and>
   new_effects ex_state (initiate_session ex_env ex_state ''T1'' (Some 7)) =
     [EmitError ''Table is not available'' None None] \<and>
   TableSessions (initiate_session ex_env ex_two_tables_state ''T2'' (Some 7)) =
     TableSessions ex_two_tables_state \<and>
   Tables (initiate_session ex_env ex_two_tables_state ''T2'' (Some 7)) = Tables ex_two_tables_state \<and>
   new_effects ex_two_tables_state (initiate_session ex_env ex_two_tables_state ''T2'' (Some 7)) =
     [EmitError ''You already have an active session at another table'' (Some 20) (Some 10)]"
proof -
  have a: "findById (Tables ex_inactive_state) 10 =
      Some \<lparr>tableId = ''T1'', isActive = False, table_status = Available, currentSession = None\<rparr>"
    by (simp add: ex_inactive_state_def findById_def)
  have b: "findOne (\<lambda>t. tableId t = ''T1'') (Tables ex_state) = Some (10, ex_table)"
    "table_status ex_table = Occupied" "isActive ex_table"
    by (simp_all add: ex_state_def ex_table_def findOne_def)
  have c: "findOne (\<lambda>t. tableId t = ''T2'') (Tables ex_two_tables_state) = Some (11, ex_second_table)"
    "table_status ex_second_table = Available" "isActive ex_second_table"
    "7 \<in> set (Users ex_two_tables_state)"
    "findOne (\<lambda>s. clientId s = Some 7 \<and> session_status s = Active) (TableSessions ex_two_tables_state) =
       Some (20, ex_session)"
    "session_tableId ex_session = Some 10"
    by (simp_all add: ex_two_tables_state_def ex_state_def ex_table_def ex_second_table_def
        ex_session_def findOne_def)
  from start_session_refused [where st = ex_inactive_state and tid = 10 and e = ex_env
        and t = "\<lparr>tableId = ''T1'', isActive = False, table_status = Available, currentSession = None\<rparr>"
        and code = "[]"]
    start_session_refused [where st = ex_state and code = "''T1''" and tid' = 10 and t' = ex_table
        and e = ex_env and uid = 7 and tid = 0 and t = ex_table]
    start_session_refused [where st = ex_two_tables_state and code = "''T2''" and tid' = 11
        and t' = ex_second_table and e = ex_env and uid = 7 and xid = 20 and xs = ex_session
        and tid = 0 and t = ex_table]
    a b c
  show ?thesis by simp
qed

section \<open>Status updates and the schema's enumeration\<close>

text \<open>
  C7. The claim lets every transition between pending, confirmed, preparing,
  ready_for_pickup, delivered and cancelled succeed. The handler sets the status and saves,
  and the save validates against the enumeration of the order schema, which has no
  \<open>delivered\<close>: for every stored order that is not already delivered, the request for
  \<open>delivered\<close> ends in the error handler with a ValidationError and nothing is written.
  The other parts of the claim hold: see \<open>updateOrderStatus_same_status\<close>,
  \<open>updateOrderStatus_not_found\<close> and, for the statuses that the schema enumerates,
  \<open>updateOrderStatus_enumerated\<close>.
\<close>

theorem updateOrderStatus_delivered_rejected:
  assumes "findById (Orders st) i = Some od" and "status od \<noteq> ''delivered''"
  shows "updateOrderStatus e st i ''delivered'' = (Next ValidationError, st)"
  using assms
  by (simp add: updateOrderStatus_def order_valid_def status_enum_def Let_def)

theorem updateOrderStatus_delivered_rejected_witness:
  "findById (Orders ex_ready_state) 30 = Some (ex_order\<lparr>status := ''ready_for_pickup''\<rparr>) \<and>
   updateOrderStatus ex_env ex_ready_state 30 ''delivered'' = (Next ValidationError, ex_ready_state)"
proof -
  have h2: "status (ex_order\<lparr>status := ''ready_for_pickup''\<rparr>) \<noteq> ''delivered''" by simp
  from updateOrderStatus_delivered_rejected [OF ex_kitchen_order(2) h2] ex_kitchen_order(2)
  show ?thesis by simp
qed

section \<open>Attaching an order to its session\<close>

text \<open>
  The placement of the scenario is sent twice, as a retry sends it. Each call builds an
  order of its own, with a new id, and pushes that id: after the first call the session
  lists the order 30, after the second it lists 30 and 31, and the store holds two orders
  for the one placement. Attaching twice is not attaching once.
\<close>

theorem createOrder_retry_counterexample:
  "map_option session_orders
     (findById (TableSessions (snd (createOrder ex_env ex_state ex_request))) 20) = Some [30] \<and>
   map_option session_orders
     (findById (TableSessions
        (snd (createOrder ex_env (snd (createOrder ex_env ex_state ex_request)) ex_request))) 20) =
     Some [30, 31] \<and>
   map fst (Orders (snd (createOrder ex_env (snd (createOrder ex_env ex_state ex_request)) ex_request))) =
     [30, 31]"
proof -
  let ?st1 = "snd (createOrder ex_env ex_state ex_request)"
  have r: "req_sessionId ex_request = Some 20" by (simp add: ex_request_def)
  have h1: "new_order ex_env ex_state ex_request = Inr ex_order"
    using ex_new_order [of "Some 20"] by (simp add: ex_request_def)
  have s0: "findById (TableSessions ex_state) 20 = Some ex_session" "nextId ex_state = 30"
    "TableSessions ex_state = [(20, ex_session)]" "Orders ex_state = []"
    by (simp_all add: ex_state_def findById_def)
  note first = createOrder_attached [OF h1 ex_order_valid r s0(1)]
  have h2: "new_order ex_env ?st1 ex_request = Inr ex_order"
    by (simp add: new_order_cong [OF createOrder_frame] h1)
  have s1: "findById (TableSessions ?st1) 20 = Some (orders_push 30 ex_session)"
    by (simp add: first s0 findById_def)
  note second = createOrder_attached [OF h2 ex_order_valid r s1]
  show ?thesis
    by (simp add: first second s0 createOrder_Orders [OF h1 ex_order_valid]
        createOrder_Orders [OF h2 ex_order_valid] findById_def orders_push_def ex_session_def)
qed

text \<open>
  C8, amended. The attachment is an unconditional append, and nothing in \<open>createOrder\<close>
  recognises a placement that it has seen before: a request that passes the checks and
  names an existing session is answered 201, and the session then lists the orders it
  listed before followed by the id of the new order, so that this id occurs once more than
  it did before. A placement that is sent again is a new order, attached in its turn.
\<close>

theorem createOrder_attaches_by_push:
  assumes "new_order e st rq = Inr od" and "order_valid od"
    and "req_sessionId rq = Some sid" and "findById (TableSessions st) sid = Some s"
  shows "fst (createOrder e st rq) = Json 201 (OrderBody ''Order created successfully'' (nextId st) od) \<and>
         findById (TableSessions (snd (createOrder e st rq))) sid = Some (orders_push (nextId st) s) \<and>
         session_orders (orders_push (nextId st) s) = session_orders s @ [nextId st] \<and>
         count_list (session_orders (orders_push (nextId st) s)) (nextId st) =
           Suc (count_list (session_orders s) (nextId st))"
  using assms
  by (simp add: createOrder_def new_id_def save_Order_def save_TableSession_def findById_save_doc
      created_def notifyKitchenAboutNewOrder_def emit_def deleteCache_def orders_push_def Let_def
      split: option.splits)

theorem createOrder_attaches_by_push_witness:
  "new_order ex_env ex_state ex_request = Inr ex_order \<and> order_valid ex_order \<and>
   findById (TableSessions ex_state) 20 = Some ex_session \<and>
   findById (TableSessions (snd (createOrder ex_env ex_state ex_request))) 20 =
     Some (ex_session\<lparr>session_orders := [30]\<rparr>) \<and>
   count_list (session_orders (orders_push 30 ex_session)) 30 = 1"
proof -
  have h1: "new_order ex_env ex_state ex_request = Inr ex_order"
    using ex_new_order [of "Some 20"] by (simp add: ex_request_def)
  have h3: "req_sessionId ex_request = Some 20" by (simp add: ex_request_def)
  have h4: "findById (TableSessions ex_state) 20 = Some ex_session"
    by (simp add: ex_state_def findById_def)
  have h5: "nextId ex_state = 30" "session_orders ex_session = []"
    by (simp_all add: ex_state_def ex_session_def)
  from createOrder_attaches_by_push [OF h1 ex_order_valid h3 h4] h1 ex_order_valid h4 h5
  show ?thesis by (simp add: orders_push_def)
qed

section \<open>The order of commit, notification and invalidation\<close>

text \<open>
  An order in preparation is set to ready for pickup, with the transport present, a kitchen
  socket registered and the cache connected. The notification is emitted right after the
  commit, and every cache deletion of the request follows it: the invalidation is not
  before the notification.
\<close>

theorem updateOrderStatus_emits_first_counterexample:
  "new_effects ex_kitchen_state (snd (updateOrderStatus ex_env ex_kitchen_state 30 ''ready_for_pickup'')) =
     [Saved OrderModel 30, Emit (Socket ''k1'') ''order_status_updated'' [30],
      DeleteCache KITCHEN_ORDERS_CACHE, DeleteCache (ORDER_DETAILS_CACHE 30),
      DeleteCache (USER_ORDERS_CACHE 7), DeleteCache KITCHEN_ORDERS_CACHE,
      DeleteCache COMPLETED_ORDERS_CACHE] \<and>
   \<not> precedes is_delete is_emit
       (new_effects ex_kitchen_state
          (snd (updateOrderStatus ex_env ex_kitchen_state 30 ''ready_for_pickup'')))"
  by (simp add: ex_kitchen_trace)

text \<open>
  C9, amended. For every call of \<open>updateOrderStatus\<close> and of \<open>createOrder\<close>, the effects
  come in this order: the first effect, if there is any, is the store commit of the order;
  no document is saved after an emission or a cache deletion; and no event is emitted after
  a cache deletion. So cache invalidation happens after the store commit and after, not
  before, the real-time notification.
\<close>

theorem commit_then_notify_then_invalidate:
  "(let tr = new_effects st (snd (updateOrderStatus e st i ns)) in
      (tr \<noteq> [] \<longrightarrow> hd tr = Saved OrderModel i) \<and>
      precedes is_saved is_delete tr \<and> precedes is_saved is_emit tr \<and>
      precedes is_emit is_delete tr) \<and>
   (let tr = new_effects st (snd (createOrder e st rq)) in
      (tr \<noteq> [] \<longrightarrow> hd tr = Saved OrderModel (nextId st)) \<and>
      precedes is_saved is_delete tr \<and> precedes is_saved is_emit tr \<and>
      precedes is_emit is_delete tr)"
proof
  show "let tr = new_effects st (snd (updateOrderStatus e st i ns)) in
      (tr \<noteq> [] \<longrightarrow> hd tr = Saved OrderModel i) \<and>
      precedes is_saved is_delete tr \<and> precedes is_saved is_emit tr \<and>
      precedes is_emit is_delete tr"
  proof (cases "\<exists>od. findById (Orders st) i = Some od \<and> status od \<noteq> ns \<and> ns \<noteq> [] \<and>
                 order_valid (od\<lparr>status := ns, updatedAt := now e\<rparr>)")
    case True
    then obtain od where od: "findById (Orders st) i = Some od" "status od \<noteq> ns" "ns \<noteq> []"
      "order_valid (od\<lparr>status := ns, updatedAt := now e\<rparr>)" by blast
    show ?thesis
      unfolding Let_def updateOrderStatus_committed(3) [OF od]
      by (simp add: precedes_append list_ex_map_DeleteCache precedes_none precedes_no_first
          update_notification_def split: option.splits)
  next
    case False
    then have "snd (updateOrderStatus e st i ns) = st"
      by (intro updateOrderStatus_uncommitted) (cases "findById (Orders st) i"; auto)
    then show ?thesis by (simp add: new_effects_def)
  qed
next
  show "let tr = new_effects st (snd (createOrder e st rq)) in
      (tr \<noteq> [] \<longrightarrow> hd tr = Saved OrderModel (nextId st)) \<and>
      precedes is_saved is_delete tr \<and> precedes is_saved is_emit tr \<and>
      precedes is_emit is_delete tr"
  proof (cases "\<exists>od. new_order e st rq = Inr od \<and> order_valid od")
    case True
    then obtain od where od: "new_order e st rq = Inr od" "order_valid od" by blast
    show ?thesis
      unfolding Let_def createOrder_effects [OF od]
      by (auto simp add: precedes_append new_order_notification_order precedes_none precedes_no_first
          split: option.splits)
  next
    case False
    then have "snd (createOrder e st rq) = st" by (rule createOrder_refused)
    then show ?thesis by (simp add: new_effects_def)
  qed
qed

theorem commit_then_notify_then_invalidate_witness:
  "hd (new_effects ex_ready_state (snd (updateOrderStatus ex_env ex_ready_state 30 ''cancelled''))) =
     Saved OrderModel 30 \<and>
   precedes is_saved is_delete
     (new_effects ex_ready_state (snd (updateOrderStatus ex_env ex_ready_state 30 ''cancelled''))) \<and>
   precedes is_emit is_delete
     (new_effects ex_ready_state (snd (updateOrderStatus ex_env ex_ready_state 30 ''cancelled''))) \<and>
   hd (new_effects ex_state (snd (createOrder ex_env ex_state ex_request))) = Saved OrderModel 30 \<and>
   precedes is_saved is_emit (new_effects ex_state (snd (createOrder ex_env ex_state ex_request))) \<and>
   precedes is_emit is_delete (new_effects ex_state (snd (createOrder ex_env ex_state ex_request)))"
proof -
  have n: "nextId ex_state = 30" by (simp add: ex_state_def)
  from commit_then_notify_then_invalidate [of ex_ready_state ex_env 30 "''cancelled''" ex_request]
  show ?thesis by (simp add: Let_def ex_ready_trace ex_create_trace n)
qed

section \<open>The order is saved before the session is looked up\<close>

text \<open>
  C10. \<open>createOrder\<close> saves the order document before it looks the named session up: a
  request that passes the checks and the schema validation and names a session that does
  not exist is answered with 404 "Session not found", while the new order stays in the
  store, the save being the one effect of the call.
\<close>

theorem createOrder_session_not_found:
  assumes "new_order e st rq = Inr od" and "order_valid od"
    and "req_sessionId rq = Some sid" and "findById (TableSessions st) sid = None"
  shows "fst (createOrder e st rq) = Json 404 (Message ''Session not found'') \<and>
         findById (Orders (snd (createOrder e st rq))) (nextId st) = Some od \<and>
         effects (snd (createOrder e st rq)) = effects st @ [Saved OrderModel (nextId st)]"
  using assms
  by (simp add: createOrder_def new_id_def save_Order_def findById_save_doc)

theorem createOrder_session_not_found_witness:
  "new_order ex_env ex_state (ex_request\<lparr>req_sessionId := Some 99\<rparr>) = Inr ex_order \<and>
   order_valid ex_order \<and>
   findById (TableSessions ex_state) 99 = None \<and>
   findById (Orders ex_state) 30 = None \<and>
   fst (createOrder ex_env ex_state (ex_request\<lparr>req_sessionId := Some 99\<rparr>)) =
     Json 404 (Message ''Session not found'') \<and>
   findById (Orders (snd (createOrder ex_env ex_state (ex_request\<lparr>req_sessionId := Some 99\<rparr>)))) 30 =
     Some ex_order"
proof -
  have h1: "new_order ex_env ex_state (ex_request\<lparr>req_sessionId := Some 99\<rparr>) = Inr ex_order"
    by (rule ex_new_order)
  have h3: "req_sessionId (ex_request\<lparr>req_sessionId := Some 99\<rparr>) = Some 99" by simp
  have h4: "findById (TableSessions ex_state) 99 = None"
    by (simp add: ex_state_def findById_def)
  have h5: "findById (Orders ex_state) 30 = None" "nextId ex_state = 30"
    by (simp_all add: ex_state_def findById_def)
  from createOrder_session_not_found [OF h1 ex_order_valid h3 h4] h1 ex_order_valid h4 h5
  show ?thesis by simp
qed

end
